theory Spec2Isabelle
  imports Complex_Main
begin

section \<open>Numbers and \<open>haversineMeters\<close> (RescueCard.tsx, tracking page)\<close>

text \<open>
  A coordinate is the object \<open>{ lat: number; lng: number }\<close> of a position sample: two finite
  doubles, each modelled by the real number it denotes. Timestamps (\<open>Date.now()\<close>, integral
  milliseconds) are modelled as \<open>int\<close>.
\<close>

record coord =
  lat :: real
  lng :: real

text \<open>
  The value of a JavaScript expression of type \<open>number\<close>: \<open>NaN\<close>, an infinity, or a finite
  double, again as the real number it denotes (so \<open>Fin 0\<close> stands for both zeros).
\<close>

datatype num = NaN | PosInf | NegInf | Fin real

text \<open>
  The arithmetic of the JavaScript engine is not code of the page; it is a parameter of the
  model. An engine gives the float64 result of \<open>+\<close>, \<open>-\<close>, \<open>*\<close>, \<open>/\<close>, of \<open>Math.sin\<close>,
  \<open>Math.cos\<close>, \<open>Math.sqrt\<close>, \<open>Math.atan2\<close>, and the constant \<open>Math.PI\<close>. Every result is
  rounded, and the model says nothing about how: whatever the engine returns is what the
  page computes with.
\<close>

record jsmath =
  fadd :: "num \<Rightarrow> num \<Rightarrow> num"
  fsub :: "num \<Rightarrow> num \<Rightarrow> num"
  fmul :: "num \<Rightarrow> num \<Rightarrow> num"
  fdiv :: "num \<Rightarrow> num \<Rightarrow> num"
  fsin :: "num \<Rightarrow> num"
  fcos :: "num \<Rightarrow> num"
  fsqrt :: "num \<Rightarrow> num"
  fatan2 :: "num \<Rightarrow> num \<Rightarrow> num"
  mathPI :: num

text \<open>
  The comparison \<open>x > y\<close> is exact in every engine: false as soon as one side is \<open>NaN\<close>.
\<close>

fun gtNum :: "num \<Rightarrow> num \<Rightarrow> bool" where
  "gtNum (Fin a) (Fin b) = (b < a)"
| "gtNum PosInf (Fin b) = True"
| "gtNum PosInf NegInf = True"
| "gtNum (Fin a) NegInf = True"
| "gtNum x y = False"

text \<open>\<open>const toRad = (v: number) => (v * Math.PI) / 180\<close>.\<close>

definition toRad :: "jsmath \<Rightarrow> num \<Rightarrow> num" where
  "toRad fp v = fdiv fp (fmul fp v (mathPI fp)) (Fin 180)"

text \<open>The local \<open>aHarv\<close> of \<open>haversineMeters\<close>.\<close>

definition aHarv :: "jsmath \<Rightarrow> coord \<Rightarrow> coord \<Rightarrow> num" where
  "aHarv fp a b =
     (let dLat = toRad fp (fsub fp (Fin (lat b)) (Fin (lat a)));
          dLon = toRad fp (fsub fp (Fin (lng b)) (Fin (lng a)));
          lat1 = toRad fp (Fin (lat a));
          lat2 = toRad fp (Fin (lat b));
          sinDlat = fsin fp (fdiv fp dLat (Fin 2));
          sinDlon = fsin fp (fdiv fp dLon (Fin 2))
      in fadd fp (fmul fp sinDlat sinDlat)
                 (fmul fp (fmul fp (fmul fp (fcos fp lat1) (fcos fp lat2)) sinDlon) sinDlon))"

definition haversineMeters :: "jsmath \<Rightarrow> coord \<Rightarrow> coord \<Rightarrow> num" where
  "haversineMeters fp a b =
     (let R = Fin 6371000;
          c = fmul fp (Fin 2)
                (fatan2 fp (fsqrt fp (aHarv fp a b)) (fsqrt fp (fsub fp (Fin 1) (aHarv fp a b))))
      in fmul fp R c)"

text \<open>
  What the proofs use of an engine: results that IEEE 754 and the definition of \<open>Math\<close> fix
  exactly, all of them at zero and one. A finite number minus itself is zero; zero times
  \<open>Math.PI\<close>, zero divided by 180 or by 2, the sine, the square root and the square of zero,
  and zero plus zero are zero; the cosine of a latitude between -90 and 90 degrees is finite,
  so that the product of two of them times zero is zero; one minus zero and the square root
  of one are one; \<open>Math.atan2(0, 1)\<close> is zero; 2 and 6371000 times zero are zero.
\<close>

definition exactAtZero :: "jsmath \<Rightarrow> bool" where
  "exactAtZero fp \<longleftrightarrow>
     (\<forall>x. fsub fp (Fin x) (Fin x) = Fin 0)
   \<and> fmul fp (Fin 0) (mathPI fp) = Fin 0
   \<and> fdiv fp (Fin 0) (Fin 180) = Fin 0
   \<and> fdiv fp (Fin 0) (Fin 2) = Fin 0
   \<and> fsin fp (Fin 0) = Fin 0
   \<and> fmul fp (Fin 0) (Fin 0) = Fin 0
   \<and> (\<forall>x y. \<bar>x\<bar> \<le> 90 \<and> \<bar>y\<bar> \<le> 90 \<longrightarrow>
         fmul fp (fmul fp (fcos fp (toRad fp (Fin x))) (fcos fp (toRad fp (Fin y)))) (Fin 0)
           = Fin 0)
   \<and> fadd fp (Fin 0) (Fin 0) = Fin 0
   \<and> fsqrt fp (Fin 0) = Fin 0
   \<and> fsub fp (Fin 1) (Fin 0) = Fin 1
   \<and> fsqrt fp (Fin 1) = Fin 1
   \<and> fatan2 fp (Fin 0) (Fin 1) = Fin 0
   \<and> fmul fp (Fin 2) (Fin 0) = Fin 0
   \<and> fmul fp (Fin 6371000) (Fin 0) = Fin 0"

text \<open>
  One engine for the concrete sessions below: it computes without rounding on finite
  numbers, and answers \<open>NaN\<close> elsewhere. \<open>atan2\<close> is the angle of the point \<open>(x, y)\<close> in
  \<open>(-pi, pi]\<close>.
\<close>

definition atan2 :: "real \<Rightarrow> real \<Rightarrow> real" where
  "atan2 y x =
     (if 0 < x then arctan (y / x)
      else if x < 0 then (if 0 \<le> y then arctan (y / x) + pi else arctan (y / x) - pi)
      else if 0 < y then pi / 2
      else if y < 0 then - (pi / 2)
      else 0)"

fun onFinite :: "(real \<Rightarrow> num) \<Rightarrow> num \<Rightarrow> num" where
  "onFinite f (Fin x) = f x"
| "onFinite f v = NaN"

definition exactMath :: jsmath where
  "exactMath =
     \<lparr> fadd = (\<lambda>u v. onFinite (\<lambda>x. onFinite (\<lambda>y. Fin (x + y)) v) u),
       fsub = (\<lambda>u v. onFinite (\<lambda>x. onFinite (\<lambda>y. Fin (x - y)) v) u),
       fmul = (\<lambda>u v. onFinite (\<lambda>x. onFinite (\<lambda>y. Fin (x * y)) v) u),
       fdiv = (\<lambda>u v. onFinite (\<lambda>x. onFinite (\<lambda>y. if y = 0 then NaN else Fin (x / y)) v) u),
       fsin = onFinite (\<lambda>x. Fin (sin x)),
       fcos = onFinite (\<lambda>x. Fin (cos x)),
       fsqrt = onFinite (\<lambda>x. if x < 0 then NaN else Fin (sqrt x)),
       fatan2 = (\<lambda>u v. onFinite (\<lambda>y. onFinite (\<lambda>x. Fin (atan2 y x)) v) u),
       mathPI = Fin pi \<rparr>"


section \<open>The tracking page (\<open>TrackingPage\<close> in RescueCard.tsx)\<close>

subsection \<open>Values exchanged with the providers\<close>

text \<open>
  A directions result is read as \<open>result.routes[0].legs[0]\<close>, then \<open>leg.distance?.text\<close> and
  \<open>leg.duration?.text\<close>; \<open>None\<close> stands for \<open>undefined\<close>.
\<close>

record route_leg =
  distance :: "string option"
  duration :: "string option"

record route =
  legs :: "route_leg list"

record directions_result =
  routes :: "route list"

record route_info =
  distanceText :: "string option"
  durationText :: "string option"

datatype travel_mode = BICYCLING | DRIVING | TRANSIT | WALKING

record directions_request =
  req_origin :: coord
  req_destination :: coord
  travelMode :: travel_mode
  departureTime :: int
  trafficModel :: string
  provideRouteAlternatives :: bool

record watch_options =
  enableHighAccuracy :: bool
  maximumAge :: int
  timeout :: int

text \<open>
  The calls the page makes on its collaborators, in the order it makes them. The two \<open>Throw\<close>
  entries record a \<open>TypeError\<close>: \<open>googleMapRef.current.fitBounds\<close> on a null map, and
  \<open>destination!.lat\<close> on a null destination.
\<close>

datatype call =
    WatchPosition nat watch_options
  | ClearWatch nat
  | GetCurrentPosition int
  | RouteRequest directions_request
  | FitBounds "coord option" coord
  | DestinationMarker coord
  | ToastError string
  | ThrowNullMap
  | ThrowNullDestination

subsection \<open>The state of the page\<close>

text \<open>
  React state (\<open>useState\<close>), refs (\<open>useRef\<close>), the bookkeeping React keeps for the three
  effects, the browser environment (with \<open>engine\<close>, the arithmetic of its JavaScript
  engine), and the state of the providers.
  \<^item> \<open>originVersion\<close> counts the calls of \<open>setOrigin\<close>: every call passes a fresh object, and
    React compares the dependency \<open>origin\<close> by identity.
  \<^item> \<open>initDeps\<close> and \<open>liveDeps\<close> are the dependency values at the last run of the effect
    \<open>[mapReady, destination, origin]\<close> and of the effect \<open>[liveTracking]\<close>; \<open>liveCleanup\<close>
    tells whether that last run returned a cleanup function.
  \<^item> \<open>oneShots\<close> holds, for every \<open>getCurrentPosition\<close> still awaited, the destination its
    \<open>initialize\<close> closure captured. \<open>pendingRoutes\<close> holds the directions requests in flight.
  \<^item> \<open>renderedRoute\<close> is what \<open>directionsRenderer.setDirections\<close> last received.
\<close>

record page =
  origin :: "coord option"
  destination :: "coord option"
  loading :: bool
  mapReady :: bool
  routeInfo :: "route_info option"
  error :: "string option"
  liveTracking :: bool
  watchIdRef :: "nat option"
  lastPositionRef :: "coord option"
  lastRouteTimestampRef :: int
  googleMapRef :: bool
  directionsRendererRef :: bool
  directionsServiceRef :: bool
  currentMarkerRef :: "coord option"
  mounted :: bool
  originVersion :: nat
  scriptEffectRan :: bool
  pollTimer :: bool
  scriptListener :: bool
  initDeps :: "(bool \<times> coord option \<times> nat) option"
  liveDeps :: "bool option"
  liveCleanup :: bool
  googleLoaded :: bool
  hasGeolocation :: bool
  hasKey :: bool
  scriptInDom :: bool
  engine :: jsmath
  renderedRoute :: "directions_result option"
  activeWatches :: "nat list"
  nextWatchId :: nat
  pendingRoutes :: "directions_request list"
  oneShots :: "coord list"
  calls :: "call list"

text \<open>
  The first render. \<open>origin\<close> and \<open>destination\<close> come from the query parameters
  (\<open>ngo_lat\<close>/\<open>ngo_lng\<close> and \<open>lat\<close>/\<open>lng\<close>), null when a parameter is missing. The last
  four booleans and \<open>fp\<close> describe the browser: the maps library loaded, geolocation
  there, the API key configured, the script element in the document, and the engine's
  arithmetic.
\<close>

definition initialPage :: "coord option \<Rightarrow> coord option \<Rightarrow> bool \<Rightarrow> bool \<Rightarrow> bool \<Rightarrow> bool \<Rightarrow> jsmath \<Rightarrow> page" where
  "initialPage ngo dest gLoaded geo key inDom fp =
     \<lparr> origin = ngo, destination = dest, loading = False, mapReady = False,
       routeInfo = None, error = None, liveTracking = False,
       watchIdRef = None, lastPositionRef = None, lastRouteTimestampRef = 0,
       googleMapRef = False, directionsRendererRef = False, directionsServiceRef = False,
       currentMarkerRef = None,
       mounted = True, originVersion = 0, scriptEffectRan = False, pollTimer = False,
       scriptListener = False, initDeps = None, liveDeps = None, liveCleanup = False,
       googleLoaded = gLoaded, hasGeolocation = geo, hasKey = key, scriptInDom = inDom,
       engine = fp,
       renderedRoute = None, activeWatches = [], nextWatchId = 0, pendingRoutes = [],
       oneShots = [], calls = [] \<rparr>"

definition emit :: "call \<Rightarrow> page \<Rightarrow> page" where
  "emit c s = s\<lparr>calls := calls s @ [c]\<rparr>"

definition setOrigin :: "coord \<Rightarrow> page \<Rightarrow> page" where
  "setOrigin c s = s\<lparr>origin := Some c, originVersion := Suc (originVersion s)\<rparr>"

subsection \<open>Loading the maps script (first effect, dependencies \<open>[destination]\<close>)\<close>

definition scriptEffect :: "page \<Rightarrow> page" where
  "scriptEffect s =
     (let s0 = s\<lparr>scriptEffectRan := True\<rparr> in
      if destination s0 = None then
        s0\<lparr>error := Some ''Destination coordinates are missing. Open this page with ?lat=<lat>&lng=<lng>.''\<rparr>
      else if googleLoaded s0 then s0\<lparr>mapReady := True\<rparr>
      else if \<not> hasKey s0 then
        s0\<lparr>error := Some ''Google Maps API key is not configured (NEXT_PUBLIC_GOOGLE_MAPS_API_KEY).''\<rparr>
      else if scriptInDom s0 then s0\<lparr>pollTimer := True\<rparr>
      else s0\<lparr>scriptInDom := True, scriptListener := True\<rparr>)"

definition pollTick :: "page \<Rightarrow> page" where
  "pollTick s = (if googleLoaded s then s\<lparr>pollTimer := False, mapReady := True\<rparr> else s)"

subsection \<open>\<open>computeRouteFrom\<close> and its result callback\<close>

text \<open>
  \<open>t\<close> is the clock reading behind \<open>new Date()\<close>. The destination is the one of the closure;
  no code calls \<open>setDestination\<close>, so it is the destination of the state.
\<close>

text \<open>The request object handed to \<open>directionsService.route\<close>.\<close>

definition drivingRequest :: "int \<Rightarrow> coord \<Rightarrow> coord \<Rightarrow> directions_request" where
  "drivingRequest t usedOrigin d =
     \<lparr> req_origin = usedOrigin, req_destination = d, travelMode = DRIVING,
       departureTime = t, trafficModel = ''bestguess'', provideRouteAlternatives = False \<rparr>"

definition computeRouteFrom :: "int \<Rightarrow> coord \<Rightarrow> page \<Rightarrow> page" where
  "computeRouteFrom t usedOrigin s =
     (if \<not> googleLoaded s then s\<lparr>error := Some ''Google Maps is not available.''\<rparr>
      else
        let s1 = s\<lparr>directionsServiceRef := True, directionsRendererRef := True, loading := True\<rparr>
        in case destination s1 of
             None \<Rightarrow> emit ThrowNullDestination s1
           | Some d \<Rightarrow>
               let req = drivingRequest t usedOrigin d
               in (emit (RouteRequest req) s1)\<lparr>pendingRoutes := pendingRoutes s1 @ [req]\<rparr>)"

definition firstLeg :: "directions_result \<Rightarrow> route_leg option" where
  "firstLeg result =
     (case routes result of
        [] \<Rightarrow> None
      | r # _ \<Rightarrow> (case legs r of [] \<Rightarrow> None | l # _ \<Rightarrow> Some l))"

definition routeCallback :: "directions_result \<Rightarrow> string \<Rightarrow> page \<Rightarrow> page" where
  "routeCallback result status s =
     (let s1 = s\<lparr>loading := False\<rparr> in
      if status = ''OK'' then
        s1\<lparr>renderedRoute := Some result,
           routeInfo := (case firstLeg result of
                           None \<Rightarrow> None
                         | Some l \<Rightarrow> Some \<lparr>distanceText = distance l, durationText = duration l\<rparr>)\<rparr>
      else s1\<lparr>error := Some (''Could not compute route: '' @ status)\<rparr>)"

definition routeResolved :: "nat \<Rightarrow> directions_result \<Rightarrow> string \<Rightarrow> page \<Rightarrow> page" where
  "routeResolved i result status s =
     (if i < length (pendingRoutes s)
      then routeCallback result status
             (s\<lparr>pendingRoutes := take i (pendingRoutes s) @ drop (Suc i) (pendingRoutes s)\<rparr>)
      else s)"

subsection \<open>\<open>initialize\<close> (second effect, dependencies \<open>[mapReady, destination, origin]\<close>)\<close>

text \<open>
  \<open>initializeRest\<close> is \<open>initialize\<close> from \<open>const g = (window as any).google\<close> on. Its arguments
  \<open>org\<close> and \<open>d\<close> are the \<open>origin\<close> and \<open>destination\<close> of the closure: after the awaited
  \<open>getCurrentPosition\<close> the closure still holds the null origin of its render.
  \<open>mapRef.current\<close>, the map's \<open>div\<close>, is there exactly while the page is mounted.
\<close>

definition initializeRest :: "int \<Rightarrow> coord option \<Rightarrow> coord \<Rightarrow> page \<Rightarrow> page" where
  "initializeRest t org d s =
     (if \<not> googleLoaded s then s\<lparr>error := Some ''Google Maps is not available.''\<rparr>
      else
        let s1 = (if \<not> googleMapRef s \<and> mounted s then s\<lparr>googleMapRef := True\<rparr> else s)
        in if \<not> googleMapRef s1 then emit ThrowNullMap s1
           else
             let s2 = (emit (FitBounds org d) s1)
                        \<lparr>directionsRendererRef := True, directionsServiceRef := True\<rparr>
             in case org of
                  Some c \<Rightarrow>
                    computeRouteFrom t c
                      (if currentMarkerRef s2 = None then s2\<lparr>currentMarkerRef := Some c\<rparr> else s2)
                | None \<Rightarrow> emit (DestinationMarker d) s2)"

definition initialize :: "int \<Rightarrow> coord \<Rightarrow> page \<Rightarrow> page" where
  "initialize t d s =
     (case origin s of
        None \<Rightarrow>
          if hasGeolocation s
          then (emit (GetCurrentPosition 8000) (s\<lparr>loading := True\<rparr>))\<lparr>oneShots := oneShots s @ [d]\<rparr>
          else initializeRest t None d s
      | Some c \<Rightarrow> initializeRest t (Some c) d s)"

definition initEffect :: "int \<Rightarrow> page \<Rightarrow> page" where
  "initEffect t s =
     (let s0 = s\<lparr>initDeps := Some (mapReady s, destination s, originVersion s)\<rparr> in
      if \<not> mapReady s0 then s0
      else case destination s0 of None \<Rightarrow> s0 | Some d \<Rightarrow> initialize t d s0)"

text \<open>The awaited \<open>getCurrentPosition\<close> resolves with a position, or rejects (error, timeout).\<close>

definition oneShotResolved :: "coord option \<Rightarrow> int \<Rightarrow> page \<Rightarrow> page" where
  "oneShotResolved r t s =
     (case oneShots s of
        [] \<Rightarrow> s
      | d # ds \<Rightarrow>
          let s1 = s\<lparr>oneShots := ds\<rparr>;
              s2 = (case r of
                      Some c \<Rightarrow> (setOrigin c s1)\<lparr>lastPositionRef := Some c, loading := False\<rparr>
                    | None \<Rightarrow> s1\<lparr>loading := False\<rparr>)
          in initializeRest t None d s2)"

subsection \<open>Live tracking (third effect, dependencies \<open>[liveTracking]\<close>)\<close>

definition clearWatch :: "nat \<Rightarrow> page \<Rightarrow> page" where
  "clearWatch i s = (emit (ClearWatch i) s)\<lparr>activeWatches := removeAll i (activeWatches s)\<rparr>"

text \<open>The cleanup function the effect returns after \<open>watchPosition\<close>.\<close>

definition liveCleanupRun :: "page \<Rightarrow> page" where
  "liveCleanupRun s =
     (case watchIdRef s of
        None \<Rightarrow> s
      | Some i \<Rightarrow> (clearWatch i s)\<lparr>watchIdRef := None\<rparr>)"

definition liveEffectBody :: "page \<Rightarrow> page" where
  "liveEffectBody s =
     (if \<not> liveTracking s then
        (case watchIdRef s of
           None \<Rightarrow> s
         | Some i \<Rightarrow> if hasGeolocation s then (clearWatch i s)\<lparr>watchIdRef := None\<rparr> else s)
        \<lparr>liveCleanup := False\<rparr>
      else if \<not> hasGeolocation s then
        (emit (ToastError ''Geolocation not available in this browser.'') s)
        \<lparr>liveTracking := False, liveCleanup := False\<rparr>
      else
        let i = nextWatchId s
        in (emit (WatchPosition i \<lparr>enableHighAccuracy = True, maximumAge = 2000, timeout = 10000\<rparr>) s)
           \<lparr>activeWatches := activeWatches s @ [i], nextWatchId := Suc i,
            watchIdRef := Some i, liveCleanup := True\<rparr>)"

text \<open>React runs the cleanup of the previous run, if it returned one, then the effect.\<close>

definition liveEffect :: "page \<Rightarrow> page" where
  "liveEffect s =
     liveEffectBody
       ((if liveCleanup s then liveCleanupRun s else s)\<lparr>liveDeps := Some (liveTracking s)\<rparr>)"

text \<open>
  The handler \<open>success\<close> of \<open>watchPosition\<close>; \<open>now\<close> is \<open>Date.now()\<close>. \<open>placeSample\<close> is
  its first half (last position, origin, marker). \<open>shouldRecompute\<close> is its test
  \<open>moved > 20 || sinceLastRoute > 10000\<close>, where \<open>moved\<close> is \<open>Infinity\<close> without a previous
  position and otherwise what \<open>haversineMeters\<close> returns on the engine of the browser (a
  \<open>NaN\<close> is not greater than 20), and \<open>lastRouteTimestampRef.current || 0\<close> is the
  timestamp itself.
\<close>

definition placeSample :: "coord \<Rightarrow> page \<Rightarrow> page" where
  "placeSample newPos s =
     (let s1 = setOrigin newPos (s\<lparr>lastPositionRef := Some newPos\<rparr>)
      in if googleLoaded s1 then s1\<lparr>currentMarkerRef := Some newPos\<rparr> else s1)"

definition shouldRecompute :: "jsmath \<Rightarrow> coord option \<Rightarrow> coord \<Rightarrow> int \<Rightarrow> int \<Rightarrow> bool" where
  "shouldRecompute fp prev newPos now lastRoute =
     (let movedOver20 = (case prev of
                           None \<Rightarrow> True
                         | Some p \<Rightarrow> gtNum (haversineMeters fp p newPos) (Fin 20));
          sinceLastRoute = now - lastRoute
      in movedOver20 \<or> 10000 < sinceLastRoute)"

definition watchSuccess :: "coord \<Rightarrow> int \<Rightarrow> page \<Rightarrow> page" where
  "watchSuccess newPos now s =
     (let prev = lastPositionRef s;
          s2 = placeSample newPos s
      in if shouldRecompute (engine s2) prev newPos now (lastRouteTimestampRef s2) then
           let s3 = s2\<lparr>lastRouteTimestampRef := now\<rparr>
           in if directionsServiceRef s3 \<and> googleMapRef s3
              then computeRouteFrom now newPos s3
              else s3
         else s2)"

definition watchFail :: "page \<Rightarrow> page" where
  "watchFail s =
     (emit (ToastError ''Unable to get live position (permission denied or unavailable).'') s)
     \<lparr>liveTracking := False\<rparr>"

definition unmount :: "page \<Rightarrow> page" where
  "unmount s =
     ((if liveCleanup s then liveCleanupRun s else s)
      \<lparr>liveCleanup := False, pollTimer := False, mounted := False\<rparr>)"

subsection \<open>Events\<close>

text \<open>
  The page is single threaded: it moves by one event at a time. An effect runs when the page
  is mounted and its dependencies differ from those of its last run; a callback runs when
  the provider has something to call it for. An event that cannot happen leaves the state
  as it is.
\<close>

datatype event =
    ScriptEffect
  | GoogleLoads
  | PollTick
  | ScriptOnload
  | ScriptOnerror
  | InitEffect int
  | OneShotResolved "coord option" int
  | Toggle
  | LiveEffect
  | Sample coord int
  | WatchError
  | RouteResolved nat directions_result string
  | Unmount

fun step :: "event \<Rightarrow> page \<Rightarrow> page" where
  "step ScriptEffect s = (if mounted s \<and> \<not> scriptEffectRan s then scriptEffect s else s)"
| "step GoogleLoads s = s\<lparr>googleLoaded := True\<rparr>"
| "step PollTick s = (if pollTimer s then pollTick s else s)"
| "step ScriptOnload s = (if scriptListener s then s\<lparr>mapReady := True\<rparr> else s)"
| "step ScriptOnerror s =
     (if scriptListener s then s\<lparr>error := Some ''Failed to load Google Maps script.''\<rparr> else s)"
| "step (InitEffect t) s =
     (if mounted s \<and> initDeps s \<noteq> Some (mapReady s, destination s, originVersion s)
      then initEffect t s else s)"
| "step (OneShotResolved r t) s = oneShotResolved r t s"
| "step Toggle s = (if mounted s then s\<lparr>liveTracking := \<not> liveTracking s\<rparr> else s)"
| "step LiveEffect s =
     (if mounted s \<and> liveDeps s \<noteq> Some (liveTracking s) then liveEffect s else s)"
| "step (Sample p now) s = (if activeWatches s \<noteq> [] then watchSuccess p now s else s)"
| "step WatchError s = (if activeWatches s \<noteq> [] then watchFail s else s)"
| "step (RouteResolved i result status) s = routeResolved i result status s"
| "step Unmount s = (if mounted s then unmount s else s)"

primrec run :: "event list \<Rightarrow> page \<Rightarrow> page" where
  "run [] s = s"
| "run (e # es) s = run es (step e s)"

text \<open>Reading the log.\<close>

fun watched :: "call list \<Rightarrow> nat list" where
  "watched [] = []"
| "watched (WatchPosition i opts # cs) = i # watched cs"
| "watched (c # cs) = watched cs"

fun cleared :: "call list \<Rightarrow> nat list" where
  "cleared [] = []"
| "cleared (ClearWatch i # cs) = i # cleared cs"
| "cleared (c # cs) = cleared cs"

fun routeRequests :: "call list \<Rightarrow> directions_request list" where
  "routeRequests [] = []"
| "routeRequests (RouteRequest r # cs) = r # routeRequests cs"
| "routeRequests (c # cs) = routeRequests cs"


subsection \<open>Invariants of the page\<close>

text \<open>
  What the geolocation watch depends on: the provider's active watches, the stored watch id,
  the cleanup of the effect, and the subscribe and unsubscribe calls made so far.
\<close>

definition watchView :: "page \<Rightarrow> nat list \<times> nat option \<times> bool \<times> bool \<times> bool option \<times> nat \<times> nat list \<times> nat list" where
  "watchView s =
     (activeWatches s, watchIdRef s, liveCleanup s, mounted s, liveDeps s, nextWatchId s,
      watched (calls s), cleared (calls s))"

fun watchOK :: "nat list \<times> nat option \<times> bool \<times> bool \<times> bool option \<times> nat \<times> nat list \<times> nat list \<Rightarrow> bool" where
  "watchOK (active, wid, cleanup, mnt, deps, next, ws, cs) \<longleftrightarrow>
     active = (case wid of None \<Rightarrow> [] | Some i \<Rightarrow> [i])
   \<and> (cleanup \<longleftrightarrow> wid \<noteq> None)
   \<and> (wid \<noteq> None \<longrightarrow> mnt \<and> deps = Some True)
   \<and> ws = cs @ active
   \<and> ws = [0..<next]"

definition watchInv :: "page \<Rightarrow> bool" where
  "watchInv s \<longleftrightarrow> watchOK (watchView s)"

text \<open>
  What a route computation depends on: the map, the maps library, the destination, the
  destinations captured by awaited one-shot reads, the origin, and the log.
\<close>

definition routeView :: "page \<Rightarrow> bool \<times> bool \<times> coord option \<times> coord list \<times> coord option \<times> bool \<times> directions_request list" where
  "routeView s =
     (googleMapRef s, googleLoaded s, destination s, oneShots s, origin s,
      ThrowNullDestination \<in> set (calls s), routeRequests (calls s))"

fun routeOK :: "bool \<times> bool \<times> coord option \<times> coord list \<times> coord option \<times> bool \<times> directions_request list \<Rightarrow> bool" where
  "routeOK (gMap, gLoaded, dest, shots, org, threw, reqs) \<longleftrightarrow>
     (gMap \<longrightarrow> gLoaded \<and> dest \<noteq> None) \<and> (\<forall>d \<in> set shots. dest = Some d) \<and> \<not> threw"

definition routeInv :: "page \<Rightarrow> bool" where
  "routeInv s \<longleftrightarrow> routeOK (routeView s)"

text \<open>
  From \<open>s\<close> to \<open>s'\<close> the log gained route requests only for the origin and the destination
  that \<open>s'\<close> holds.
\<close>

definition grows :: "page \<Rightarrow> page \<Rightarrow> bool" where
  "grows s s' \<longleftrightarrow>
     (\<exists>new. routeRequests (calls s') = routeRequests (calls s) @ new
        \<and> (\<forall>r \<in> set new. origin s' = Some (req_origin r)
                          \<and> destination s' = Some (req_destination r)))"


subsection \<open>Scenarios\<close>

text \<open>
  Concrete sessions. The positions are those of the route example (origin
  (12.9716, 77.5946), destination (12.9352, 77.6245)) and a third point; \<open>startTime\<close> is a
  clock reading in milliseconds; \<open>fp\<close> is the engine of the browser.
\<close>

definition ngoPosition :: coord where
  "ngoPosition = \<lparr>lat = 12.9716, lng = 77.5946\<rparr>"

definition caseSite :: coord where
  "caseSite = \<lparr>lat = 12.9352, lng = 77.6245\<rparr>"

definition movedPosition :: coord where
  "movedPosition = \<lparr>lat = 12.9650, lng = 77.6000\<rparr>"

definition startTime :: int where
  "startTime = 1700000000000"

text \<open>
  The page opened without origin while the maps script is still loading; the user starts
  live tracking and the first sample arrives.
\<close>

definition scriptPending :: "jsmath \<Rightarrow> page" where
  "scriptPending fp =
     run [ScriptEffect, InitEffect startTime, LiveEffect, Toggle, LiveEffect,
          Sample ngoPosition (startTime + 1000)]
       (initialPage None (Some caseSite) False True True False fp)"

text \<open>
  The page opened without origin with the maps library there: the one-shot read gives the
  origin, the effect computes the first route, the user starts live tracking, the first
  sample arrives and React runs the effect that depends on \<open>origin\<close>.
\<close>

definition liveSession :: "jsmath \<Rightarrow> page" where
  "liveSession fp =
     run [ScriptEffect, InitEffect startTime, LiveEffect,
          OneShotResolved (Some ngoPosition) (startTime + 500), InitEffect (startTime + 600),
          Toggle, LiveEffect, Sample ngoPosition (startTime + 1000), InitEffect (startTime + 1001)]
       (initialPage None (Some caseSite) True True True False fp)"

text \<open>
  Two points on the equator, a thousandth of a degree of longitude (about 111 m) apart, and
  a session opened with the first as origin: the effect computes the first route, the user
  starts live tracking, the first sample arrives and React runs the effect again.
\<close>

definition equatorWest :: coord where
  "equatorWest = \<lparr>lat = 0, lng = 0\<rparr>"

definition equatorEast :: coord where
  "equatorEast = \<lparr>lat = 0, lng = 0.001\<rparr>"

definition equatorSession :: "jsmath \<Rightarrow> page" where
  "equatorSession fp =
     run [ScriptEffect, InitEffect startTime, LiveEffect, Toggle, LiveEffect,
          Sample equatorWest (startTime + 1000), InitEffect (startTime + 1001)]
       (initialPage (Some equatorWest) (Some caseSite) True True True False fp)"

definition olderResult :: directions_result where
  "olderResult =
     \<lparr>routes = [\<lparr>legs = [\<lparr>distance = Some ''4.5 km'', duration = Some ''12 mins''\<rparr>]\<rparr>]\<rparr>"

definition newerResult :: directions_result where
  "newerResult =
     \<lparr>routes = [\<lparr>legs = [\<lparr>distance = Some ''3.9 km'', duration = Some ''10 mins''\<rparr>]\<rparr>]\<rparr>"


section \<open>The report form (\<open>ReportPage\<close> in report/page.tsx)\<close>

record form_data =
  description :: string
  severity :: string
  contactName :: string
  contactPhone :: string
  location :: string

text \<open>
  What \<open>handleSubmit\<close> posts to \<open>/report-case\<close>. \<open>latitude\<close> and \<open>longitude\<close> are set only
  when they were found.
\<close>

record payload =
  image_base64 :: string
  p_description :: string
  p_severity :: string
  contact_name :: string
  contact_phone :: string
  p_location :: string
  latitude :: "real option"
  longitude :: "real option"

text \<open>The JSON body of the backend's answer, as far as the handler reads it.\<close>

record report_data =
  d_error :: string
  d_message :: string
  d_status :: string

datatype toast_kind = TError | TInfo | TSuccess

datatype report_call =
    Toast toast_kind string
  | FetchGeocode string
  | FetchBackend string payload
  | PushLater string nat

text \<open>
  What \<open>fetch\<close> of the geocoding service gives: an exception, an answer without a location, or
  a location. What \<open>fetch\<close> of the backend gives: an exception, or a response with its \<open>ok\<close>
  flag, its status and its body (\<open>{}\<close>, all fields empty, when the body is not JSON).
\<close>

datatype geocode_outcome = GeocodeThrows | GeocodeEmpty | GeocodeLocation real real

datatype backend_outcome = NetworkError | Response bool nat report_data

text \<open>
  The environment of one submission: the two configuration strings (empty when not
  configured), the platform's answer to
  \<open>location.match(/(-?\d+\.\d+)\s*,\s*(-?\d+\.\d+)/)\<close> followed by \<open>parseFloat\<close> of both
  groups, and the outcomes of the two requests.
\<close>

record submit_env =
  backendApi :: string
  mapsKey :: string
  coordMatch :: "string \<Rightarrow> (real \<times> real) option"
  geocode :: geocode_outcome
  backend :: backend_outcome

text \<open>
  An image file is what \<open>FileReader.readAsDataURL\<close> makes of it: the data URL, or \<open>None\<close>
  when reading fails.
\<close>

record report_page =
  imageFile :: "string option option"
  formData :: form_data
  isSubmitting :: bool
  submitted :: bool
  isAnalyzing :: bool
  detectionResult :: "report_data option"

text \<open>\<open>result.split(',')\<close>.\<close>

fun splitComma :: "string \<Rightarrow> string list" where
  "splitComma [] = [[]]"
| "splitComma (c # cs) =
     (if c = CHR '','' then [] # splitComma cs
      else (case splitComma cs of [] \<Rightarrow> [[c]] | w # ws \<Rightarrow> (c # w) # ws))"

definition toBase64 :: "string \<Rightarrow> string" where
  "toBase64 dataUrl =
     (case splitComma dataUrl of
        [] \<Rightarrow> []
      | [p0] \<Rightarrow> p0
      | p0 # p1 # _ \<Rightarrow> p1)"

text \<open>A number in a template literal: \<open>res.status\<close> in decimal.\<close>

fun decimal :: "nat \<Rightarrow> string" where
  "decimal n =
     (if n < 10 then [char_of (48 + n)]
      else decimal (n div 10) @ [char_of (48 + n mod 10)])"

text \<open>\<open>a || b\<close> on strings.\<close>

definition orElse :: "string \<Rightarrow> string \<Rightarrow> string" where
  "orElse a b = (if a \<noteq> [] then a else b)"

text \<open>
  Latitude and longitude of the report: read off the location text when it looks like
  \<open>lat, lng\<close>, asked of the geocoding service otherwise when a key is configured.
\<close>

definition locate :: "submit_env \<Rightarrow> string \<Rightarrow> (real \<times> real) option \<times> report_call list" where
  "locate env loc =
     (case coordMatch env loc of
        Some ll \<Rightarrow> (Some ll, [])
      | None \<Rightarrow>
          if mapsKey env \<noteq> [] then
            (case geocode env of
               GeocodeLocation la lo \<Rightarrow> (Some (la, lo), [FetchGeocode loc])
             | _ \<Rightarrow> (None, [FetchGeocode loc]))
          else (None, []))"

definition makePayload :: "form_data \<Rightarrow> string \<Rightarrow> (real \<times> real) option \<Rightarrow> payload" where
  "makePayload fd imageBase64 latlng =
     \<lparr> image_base64 = imageBase64,
       p_description = description fd,
       p_severity = severity fd,
       contact_name = contactName fd,
       contact_phone = contactPhone fd,
       p_location = location fd,
       latitude = map_option fst latlng,
       longitude = map_option snd latlng \<rparr>"

text \<open>The \<open>try\<close> block around \<open>fetch(`${BACKEND_API}/report-case`, ...)\<close>, after the request is sent.\<close>

definition onBackend :: "backend_outcome \<Rightarrow> report_page \<Rightarrow> report_page \<times> report_call list" where
  "onBackend outcome s1 =
     (case outcome of
        NetworkError \<Rightarrow>
          (s1\<lparr>isSubmitting := False, isAnalyzing := False\<rparr>,
           [Toast TError ''Network error: failed to submit report''])
      | Response ok code dat \<Rightarrow>
          (let s2 = s1\<lparr>isAnalyzing := False\<rparr> in
           if \<not> ok then
             (s2\<lparr>isSubmitting := False\<rparr>,
              [Toast TError (''Failed to submit report: ''
                   @ orElse (d_error dat) (orElse (d_message dat) (decimal code)))])
           else
             (let s3 = s2\<lparr>detectionResult := Some dat\<rparr> in
              if d_status dat = ''invalid_image'' then
                (s3\<lparr>isSubmitting := False\<rparr>,
                 [Toast TError (orElse (d_message dat) ''This does not appear to be an animal'')])
              else
                (s3\<lparr>isSubmitting := False, submitted := True\<rparr>,
                 [Toast TSuccess
                    (''Animal detected '' @ [CHR 0xE2, CHR 0x80, CHR 0x94] @ '' case submitted''),
                  PushLater ''/'' 5000]))))"

text \<open>\<open>handleSubmit\<close> after its four checks, from \<open>toast.info("Submitting report...")\<close> on.\<close>

definition submitReport :: "submit_env \<Rightarrow> string option \<Rightarrow> report_page \<Rightarrow> report_page \<times> report_call list" where
  "submitReport env file s =
     (let c0 = [Toast TInfo ''Submitting report...''];
          s1 = s\<lparr>isSubmitting := True, isAnalyzing := True, detectionResult := None\<rparr>;
          found = locate env (location (formData s));
          c1 = c0 @ snd found
      in case file of
           None \<Rightarrow> (s1, c1 @ [Toast TError ''Failed to read image file''])
         | Some dataUrl \<Rightarrow>
             if backendApi env = [] then
               (s1, c1 @ [Toast TError ''Backend API not configured (NEXT_PUBLIC_BACKEND_API)''])
             else
               (let sent = FetchBackend (backendApi env @ ''/report-case'')
                             (makePayload (formData s) (toBase64 dataUrl) (fst found));
                    answered = onBackend (backend env) s1
                in (fst answered, c1 @ [sent] @ snd answered)))"

definition handleSubmit :: "submit_env \<Rightarrow> report_page \<Rightarrow> report_page \<times> report_call list" where
  "handleSubmit env s =
     (case imageFile s of
        None \<Rightarrow> (s, [Toast TError ''Please upload an image''])
      | Some file \<Rightarrow>
          if location (formData s) = [] then (s, [Toast TError ''Please provide a location''])
          else if contactPhone (formData s) = [] then
            (s, [Toast TError ''Please provide a contact phone number''])
          else if severity (formData s) = [] then
            (s, [Toast TError ''Please select severity level''])
          else submitReport env file s)"

text \<open>The requests to the backend among the calls of a submission.\<close>

fun backendRequests :: "report_call list \<Rightarrow> (string \<times> payload) list" where
  "backendRequests [] = []"
| "backendRequests (FetchBackend url body # cs) = (url, body) # backendRequests cs"
| "backendRequests (c # cs) = backendRequests cs"


text \<open>A report form, given its phone field, and an environment whose backend accepts.\<close>

definition reportForm :: "string \<Rightarrow> report_page" where
  "reportForm phone =
     \<lparr> imageFile = Some (Some ''data:image/png;base64,AAAA''),
       formData = \<lparr> description = ''injured dog'', severity = ''high'', contactName = ''Asha'',
                    contactPhone = phone, location = ''12.9352, 77.6245'' \<rparr>,
       isSubmitting = False, submitted = False, isAnalyzing = False,
       detectionResult = None \<rparr>"

definition reportEnv :: submit_env where
  "reportEnv =
     \<lparr> backendApi = ''http://127.0.0.1:3000'', mapsKey = [], coordMatch = (\<lambda>x. None),
       geocode = GeocodeEmpty,
       backend = Response True 200 \<lparr>d_error = [], d_message = [], d_status = ''pending_review''\<rparr> \<rparr>"


section \<open>The distance of a position from itself\<close>

lemma exactAtZero_exactMath: "exactAtZero exactMath"
  by (simp add: exactAtZero_def exactMath_def toRad_def atan2_def)

text \<open>
  On every engine that is exact at zero, a position with a valid latitude is at distance
  zero from itself.
\<close>

lemma haversineMeters_same:
  assumes "exactAtZero fp" and "\<bar>lat a\<bar> \<le> 90"
  shows "haversineMeters fp a a = Fin 0"
proof -
  have z: "fsub fp (Fin (lat a)) (Fin (lat a)) = Fin 0" "fsub fp (Fin (lng a)) (Fin (lng a)) = Fin 0"
    using assms(1) by (simp_all add: exactAtZero_def)
  have r: "toRad fp (Fin 0) = Fin 0"
    using assms(1) by (simp add: exactAtZero_def toRad_def)
  have h: "fdiv fp (Fin 0) (Fin 2) = Fin 0" "fsin fp (Fin 0) = Fin 0"
      "fmul fp (Fin 0) (Fin 0) = Fin 0" "fadd fp (Fin 0) (Fin 0) = Fin 0"
    using assms(1) by (simp_all add: exactAtZero_def)
  have c: "fmul fp (fmul fp (fcos fp (toRad fp (Fin (lat a)))) (fcos fp (toRad fp (Fin (lat a)))))
             (Fin 0) = Fin 0"
    using assms unfolding exactAtZero_def by blast
  have a0: "aHarv fp a a = Fin 0"
    by (simp add: aHarv_def Let_def z r h c)
  have t: "fsqrt fp (Fin 0) = Fin 0" "fsub fp (Fin 1) (Fin 0) = Fin 1" "fsqrt fp (Fin 1) = Fin 1"
      "fatan2 fp (Fin 0) (Fin 1) = Fin 0" "fmul fp (Fin 2) (Fin 0) = Fin 0"
      "fmul fp (Fin 6371000) (Fin 0) = Fin 0"
    using assms(1) by (simp_all add: exactAtZero_def)
  show ?thesis by (simp add: haversineMeters_def Let_def a0 t)
qed


text \<open>
  The engine without rounding, operation by operation, and the distance it gives between
  the two points on the equator.
\<close>

lemma atan2_sin_cos:
  fixes t :: real
  assumes "0 < t" "t < pi / 2"
  shows "atan2 (sin t) (cos t) = t"
proof -
  have c: "0 < cos t" using assms by (intro cos_gt_zero_pi) (use pi_gt_zero in linarith)+
  have "arctan (sin t / cos t) = t"
    using assms arctan_tan [of t] by (simp add: tan_def)
  then show ?thesis using c by (simp add: atan2_def)
qed

lemma exact_ops:
  "fadd exactMath (Fin x) (Fin y) = Fin (x + y)"
  "fsub exactMath (Fin x) (Fin y) = Fin (x - y)"
  "fmul exactMath (Fin x) (Fin y) = Fin (x * y)"
  "y \<noteq> 0 \<Longrightarrow> fdiv exactMath (Fin x) (Fin y) = Fin (x / y)"
  "fsin exactMath (Fin x) = Fin (sin x)"
  "fcos exactMath (Fin x) = Fin (cos x)"
  "\<not> x < 0 \<Longrightarrow> fsqrt exactMath (Fin x) = Fin (sqrt x)"
  "fatan2 exactMath (Fin y) (Fin x) = Fin (atan2 y x)"
  "mathPI exactMath = Fin pi"
  by (simp_all add: exactMath_def)

lemma equator_distance:
  "haversineMeters exactMath equatorWest equatorEast = Fin (6371000 * (2 * (pi / 360000)))"
proof -
  define t :: real where "t = pi / 360000"
  have t: "0 < t" "t < pi / 2" using pi_gt_zero by (simp_all add: t_def)
  have s: "0 < sin t" using t by (intro sin_gt_zero) (use pi_gt_zero in linarith)+
  have c: "0 < cos t" using t by (intro cos_gt_zero_pi) (use pi_gt_zero in linarith)+
  have a: "aHarv exactMath equatorWest equatorEast = Fin (sin t * sin t)"
    by (simp add: aHarv_def toRad_def exact_ops equatorWest_def equatorEast_def Let_def t_def)
  have one: "1 - sin t * sin t = cos t * cos t"
    using sin_cos_squared_add [of t] by (simp add: power2_eq_square algebra_simps)
  have r1: "fsqrt exactMath (Fin (sin t * sin t)) = Fin (sin t)"
    using s by (simp add: exactMath_def not_less)
  have r2: "fsqrt exactMath (fsub exactMath (Fin 1) (Fin (sin t * sin t))) = Fin (cos t)"
    using c by (simp add: exact_ops(2) one) (simp add: exactMath_def not_less)
  have "haversineMeters exactMath equatorWest equatorEast
        = fmul exactMath (Fin 6371000) (fmul exactMath (Fin 2) (fatan2 exactMath (Fin (sin t)) (Fin (cos t))))"
    by (simp only: haversineMeters_def Let_def a r1 r2)
  also have "\<dots> = Fin (6371000 * (2 * t))"
    by (simp only: exact_ops atan2_sin_cos [OF t])
  finally show ?thesis by (simp add: t_def)
qed

lemma equator_over_20:
  "gtNum (haversineMeters exactMath equatorWest equatorEast) (Fin 20)"
proof -
  have "2 \<le> pi" by (rule pi_ge_two)
  then have "(20::real) < 6371000 * (2 * (pi / 360000))" by simp
  then show ?thesis by (simp add: equator_distance)
qed


section \<open>The route result callback\<close>

text \<open>
  Claim C4. A route computation that completes with a status other than \<open>"OK"\<close> surfaces an
  error naming that status, and leaves \<open>routeInfo\<close> and the rendered route as they were.
\<close>

theorem C4_failed_route_keeps_previous:
  assumes "status \<noteq> ''OK''"
  shows "routeInfo (routeCallback result status s) = routeInfo s
       \<and> renderedRoute (routeCallback result status s) = renderedRoute s
       \<and> error (routeCallback result status s) = Some (''Could not compute route: '' @ status)"
  using assms by (simp add: routeCallback_def)

theorem C4_zero_results_witness:
  "''ZERO_RESULTS'' \<noteq> ''OK''
   \<and> routeInfo (routeCallback \<lparr>routes = []\<rparr> ''ZERO_RESULTS''
        ((initialPage None (Some \<lparr>lat = 12.9352, lng = 77.6245\<rparr>) True True True False exactMath)
           \<lparr>routeInfo := Some \<lparr>distanceText = Some ''4.5 km'', durationText = Some ''12 mins''\<rparr>\<rparr>))
     = Some \<lparr>distanceText = Some ''4.5 km'', durationText = Some ''12 mins''\<rparr>
   \<and> error (routeCallback \<lparr>routes = []\<rparr> ''ZERO_RESULTS''
        ((initialPage None (Some \<lparr>lat = 12.9352, lng = 77.6245\<rparr>) True True True False exactMath)
           \<lparr>routeInfo := Some \<lparr>distanceText = Some ''4.5 km'', durationText = Some ''12 mins''\<rparr>\<rparr>))
     = Some ''Could not compute route: ZERO_RESULTS''"
  using C4_failed_route_keeps_previous [of "''ZERO_RESULTS''" "\<lparr>routes = []\<rparr>"
      "(initialPage None (Some \<lparr>lat = 12.9352, lng = 77.6245\<rparr>) True True True False exactMath)
           \<lparr>routeInfo := Some \<lparr>distanceText = Some ''4.5 km'', durationText = Some ''12 mins''\<rparr>\<rparr>"]
  by (simp add: initialPage_def)


section \<open>The geolocation watch\<close>

lemmas page_ops =
  emit_def setOrigin_def scriptEffect_def pollTick_def computeRouteFrom_def drivingRequest_def
  routeCallback_def routeResolved_def initializeRest_def initialize_def initEffect_def
  oneShotResolved_def clearWatch_def liveCleanupRun_def liveEffectBody_def liveEffect_def
  placeSample_def shouldRecompute_def watchSuccess_def watchFail_def unmount_def firstLeg_def
  Let_def

lemma watched_append: "watched (xs @ ys) = watched xs @ watched ys"
  by (induction xs rule: watched.induct) simp_all

lemma cleared_append: "cleared (xs @ ys) = cleared xs @ cleared ys"
  by (induction xs rule: cleared.induct) simp_all

lemma routeRequests_append: "routeRequests (xs @ ys) = routeRequests xs @ routeRequests ys"
  by (induction xs rule: routeRequests.induct) simp_all

lemmas log_append = watched_append cleared_append routeRequests_append

lemma watchInv_frame: "watchInv s \<Longrightarrow> watchView s' = watchView s \<Longrightarrow> watchInv s'"
  by (simp add: watchInv_def)

lemma view_computeRouteFrom: "watchView (computeRouteFrom t c s) = watchView s"
  by (simp add: watchView_def computeRouteFrom_def emit_def Let_def log_append split: option.split)

lemma view_routeCallback: "watchView (routeCallback result status s) = watchView s"
  by (simp add: watchView_def routeCallback_def Let_def)

lemma view_routeResolved: "watchView (routeResolved i result status s) = watchView s"
  by (simp add: routeResolved_def view_routeCallback) (simp add: watchView_def)

lemma view_initializeRest: "watchView (initializeRest t org d s) = watchView s"
  by (simp add: initializeRest_def Let_def view_computeRouteFrom split: option.split)
     (simp add: watchView_def emit_def log_append)

lemma view_initialize: "watchView (initialize t d s) = watchView s"
  by (simp add: initialize_def view_initializeRest split: option.split)
     (simp add: watchView_def emit_def log_append)

lemma view_initEffect: "watchView (initEffect t s) = watchView s"
  by (simp add: initEffect_def Let_def view_initialize split: option.split)
     (simp add: watchView_def)

lemma view_oneShotResolved: "watchView (oneShotResolved r t s) = watchView s"
  by (simp add: oneShotResolved_def Let_def view_initializeRest split: list.split option.split)
     (simp add: watchView_def setOrigin_def)

lemma view_watchSuccess: "watchView (watchSuccess p now s) = watchView s"
  by (simp add: watchSuccess_def Let_def view_computeRouteFrom)
     (simp add: watchView_def placeSample_def setOrigin_def Let_def)

lemma view_watchFail: "watchView (watchFail s) = watchView s"
  by (simp add: watchView_def watchFail_def emit_def log_append)

lemma view_scriptEffect: "watchView (scriptEffect s) = watchView s"
  by (simp add: watchView_def scriptEffect_def Let_def)

lemma view_pollTick: "watchView (pollTick s) = watchView s"
  by (simp add: watchView_def pollTick_def)

lemmas view_frame =
  view_computeRouteFrom view_routeResolved view_initEffect view_oneShotResolved
  view_watchSuccess view_watchFail view_scriptEffect view_pollTick

lemma watchInv_initial: "watchInv (initialPage ngo dest g geo key inDom fp)"
  by (simp add: watchInv_def watchView_def initialPage_def)

lemma watchInv_liveCleanupRun: "watchInv s \<Longrightarrow> liveCleanup s \<Longrightarrow> 
   watchIdRef (liveCleanupRun s) = None \<and> activeWatches (liveCleanupRun s) = []
   \<and> watched (calls (liveCleanupRun s)) = cleared (calls (liveCleanupRun s))
   \<and> watched (calls (liveCleanupRun s)) = [0..<nextWatchId (liveCleanupRun s)]
   \<and> mounted (liveCleanupRun s) = mounted s \<and> liveTracking (liveCleanupRun s) = liveTracking s
   \<and> hasGeolocation (liveCleanupRun s) = hasGeolocation s"
  by (auto simp: watchInv_def watchView_def liveCleanupRun_def clearWatch_def emit_def log_append split: option.splits)

lemma watchInv_liveEffect: "watchInv s \<Longrightarrow> mounted s \<Longrightarrow> watchInv (liveEffect s)"
proof -
  assume i: "watchInv s" and m: "mounted s"
  define s0 where "s0 = (if liveCleanup s then liveCleanupRun s else s)"
  have s0: "watchIdRef s0 = None" "activeWatches s0 = []"
      "watched (calls s0) = cleared (calls s0)" "watched (calls s0) = [0..<nextWatchId s0]"
      "mounted s0" "liveTracking s0 = liveTracking s"
    using watchInv_liveCleanupRun [OF i] i m by (auto simp: s0_def watchInv_def watchView_def split: option.splits)
  have "liveEffect s = liveEffectBody (s0\<lparr>liveDeps := Some (liveTracking s)\<rparr>)"
    by (simp add: liveEffect_def s0_def)
  then show ?thesis using s0
    by (simp add: watchInv_def watchView_def liveEffectBody_def emit_def log_append Let_def)
qed

lemma watchInv_unmount: "watchInv s \<Longrightarrow> watchInv (unmount s)"
proof -
  assume i: "watchInv s"
  define s0 where "s0 = (if liveCleanup s then liveCleanupRun s else s)"
  have s0: "watchIdRef s0 = None" "activeWatches s0 = []"
      "watched (calls s0) = cleared (calls s0)" "watched (calls s0) = [0..<nextWatchId s0]"
    using watchInv_liveCleanupRun [OF i] i by (auto simp: s0_def watchInv_def watchView_def split: option.splits)
  have "unmount s = s0\<lparr>liveCleanup := False, pollTimer := False, mounted := False\<rparr>"
    by (simp add: unmount_def s0_def)
  then show ?thesis using s0 by (simp add: watchInv_def watchView_def)
qed

lemma view_step:
  "e \<noteq> LiveEffect \<Longrightarrow> e \<noteq> Unmount \<Longrightarrow> watchView (step e s) = watchView s"
  by (cases e) (simp_all add: view_frame, simp_all add: watchView_def)

lemma watchInv_step: "watchInv s \<Longrightarrow> watchInv (step e s)"
proof -
  assume i: "watchInv s"
  consider "e = LiveEffect" | "e = Unmount" | "e \<noteq> LiveEffect" "e \<noteq> Unmount" by blast
  then show ?thesis
  proof cases
    case 1
    then show ?thesis using i by (simp add: watchInv_liveEffect)
  next
    case 2
    then show ?thesis using i by (simp add: watchInv_unmount)
  next
    case 3
    from watchInv_frame [OF i view_step [OF 3]] show ?thesis .
  qed
qed

lemma watchInv_run: "watchInv s \<Longrightarrow> watchInv (run es s)"
  by (induction es arbitrary: s) (simp_all add: watchInv_step)

text \<open>
  Claim C6. In every execution, whatever the order of toggles, stream errors and teardown:
  the ids handed out by \<open>watchPosition\<close> are, in order, the ids given to \<open>clearWatch\<close>
  followed by the watches still active; no id is subscribed twice; at most one watch is
  active; and once live tracking is off and its effect has run, or the page is unmounted,
  no watch is active and every \<open>watchPosition\<close> has had its one \<open>clearWatch\<close>.
\<close>

theorem C6_subscriptions_paired:
  assumes s_def: "s = run es (initialPage ngo dest g geo key inDom fp)"
  shows "watched (calls s) = cleared (calls s) @ activeWatches s
       \<and> distinct (watched (calls s))
       \<and> length (activeWatches s) \<le> 1
       \<and> ((\<not> mounted s \<or> (\<not> liveTracking s \<and> liveDeps s = Some False))
            \<longrightarrow> activeWatches s = [] \<and> cleared (calls s) = watched (calls s))"
proof -
  have "watchInv s" unfolding s_def by (rule watchInv_run [OF watchInv_initial])
  then have ok: "watchOK (activeWatches s, watchIdRef s, liveCleanup s, mounted s, liveDeps s,
                   nextWatchId s, watched (calls s), cleared (calls s))"
    unfolding watchInv_def watchView_def .
  have active: "activeWatches s = (case watchIdRef s of None \<Rightarrow> [] | Some i \<Rightarrow> [i])"
    and held: "watchIdRef s \<noteq> None \<longrightarrow> mounted s \<and> liveDeps s = Some True"
    and paired: "watched (calls s) = cleared (calls s) @ activeWatches s"
    and fresh: "watched (calls s) = [0..<nextWatchId s]"
    using ok unfolding watchOK.simps by blast+
  have one: "length (activeWatches s) \<le> 1"
    unfolding active by (cases "watchIdRef s") simp_all
  have dist: "distinct (watched (calls s))"
    unfolding fresh by (rule distinct_upt)
  have off: "activeWatches s = [] \<and> cleared (calls s) = watched (calls s)"
    if "\<not> mounted s \<or> (\<not> liveTracking s \<and> liveDeps s = Some False)"
  proof -
    from that held have "watchIdRef s = None" by auto
    then have "activeWatches s = []" unfolding active by simp
    then show ?thesis using paired by simp
  qed
  show ?thesis using paired dist one off by blast
qed

text \<open>
  A session that starts live tracking three times and leaves it by a stream error, by the
  toggle, and by teardown.
\<close>

theorem C6_witness:
  "(\<not> mounted (run [ScriptEffect, InitEffect 0, LiveEffect, Toggle, LiveEffect,
                      Sample \<lparr>lat = 12.9716, lng = 77.5946\<rparr> 1000, WatchError, LiveEffect,
                      Toggle, LiveEffect, Toggle, LiveEffect, Toggle, LiveEffect, Unmount]
                 (initialPage None (Some \<lparr>lat = 12.9352, lng = 77.6245\<rparr>) True True True False exactMath)))
   \<and> watched (calls (run [ScriptEffect, InitEffect 0, LiveEffect, Toggle, LiveEffect,
                      Sample \<lparr>lat = 12.9716, lng = 77.5946\<rparr> 1000, WatchError, LiveEffect,
                      Toggle, LiveEffect, Toggle, LiveEffect, Toggle, LiveEffect, Unmount]
                 (initialPage None (Some \<lparr>lat = 12.9352, lng = 77.6245\<rparr>) True True True False exactMath)))
     = [0, 1, 2]
   \<and> cleared (calls (run [ScriptEffect, InitEffect 0, LiveEffect, Toggle, LiveEffect,
                      Sample \<lparr>lat = 12.9716, lng = 77.5946\<rparr> 1000, WatchError, LiveEffect,
                      Toggle, LiveEffect, Toggle, LiveEffect, Toggle, LiveEffect, Unmount]
                 (initialPage None (Some \<lparr>lat = 12.9352, lng = 77.6245\<rparr>) True True True False exactMath)))
     = [0, 1, 2]
   \<and> activeWatches (run [ScriptEffect, InitEffect 0, LiveEffect, Toggle, LiveEffect,
                      Sample \<lparr>lat = 12.9716, lng = 77.5946\<rparr> 1000, WatchError, LiveEffect,
                      Toggle, LiveEffect, Toggle, LiveEffect, Toggle, LiveEffect, Unmount]
                 (initialPage None (Some \<lparr>lat = 12.9352, lng = 77.6245\<rparr>) True True True False exactMath))
     = []"
  using C6_subscriptions_paired [OF refl, of "[ScriptEffect, InitEffect 0, LiveEffect, Toggle, LiveEffect,
                      Sample \<lparr>lat = 12.9716, lng = 77.5946\<rparr> 1000, WatchError, LiveEffect,
                      Toggle, LiveEffect, Toggle, LiveEffect, Toggle, LiveEffect, Unmount]"
         None "Some \<lparr>lat = 12.9352, lng = 77.6245\<rparr>" True True True False exactMath]
  by (simp add: page_ops initialPage_def)


section \<open>Route computations\<close>

lemma routeInv_frame:
  "routeInv s \<Longrightarrow> routeView s' = routeView s \<Longrightarrow> routeInv s' \<and> grows s s'"
  by (simp add: routeInv_def grows_def) (simp add: routeView_def)

lemma routeInv_quiet:
  "routeInv s' \<Longrightarrow> routeRequests (calls s') = routeRequests (calls s) \<Longrightarrow> routeInv s' \<and> grows s s'"
  by (simp add: grows_def)

lemma rview_routeResolved: "routeView (routeResolved i result status s) = routeView s"
  by (simp add: routeView_def routeResolved_def routeCallback_def Let_def)

lemma rview_liveCleanupRun: "routeView (liveCleanupRun s) = routeView s"
  by (simp add: routeView_def liveCleanupRun_def clearWatch_def emit_def log_append
           split: option.split)

lemma rview_liveEffectBody: "routeView (liveEffectBody s) = routeView s"
  by (simp add: routeView_def liveEffectBody_def clearWatch_def emit_def log_append Let_def
           split: option.split)

lemma rview_liveEffect: "routeView (liveEffect s) = routeView s"
  by (simp add: liveEffect_def rview_liveEffectBody)
     (simp add: routeView_def rview_liveCleanupRun [unfolded routeView_def])

lemma rview_unmount: "routeView (unmount s) = routeView s"
  using rview_liveCleanupRun [of s] by (simp add: unmount_def routeView_def)

lemma rview_watchFail: "routeView (watchFail s) = routeView s"
  by (simp add: routeView_def watchFail_def emit_def log_append)

lemma rview_scriptEffect: "routeView (scriptEffect s) = routeView s"
  by (simp add: routeView_def scriptEffect_def Let_def)

lemma rview_pollTick: "routeView (pollTick s) = routeView s"
  by (simp add: routeView_def pollTick_def)

lemma computeRouteFrom_ok:
  assumes "routeInv s" and "destination s \<noteq> None" and "origin s = Some c"
  shows "routeInv (computeRouteFrom t c s) \<and> grows s (computeRouteFrom t c s)"
  using assms
  by (auto simp: routeInv_def routeView_def grows_def computeRouteFrom_def drivingRequest_def emit_def Let_def log_append)

lemma initializeRest_ok:
  assumes "routeInv s" and "destination s = Some d" and "org = None \<or> org = origin s"
  shows "routeInv (initializeRest t org d s) \<and> grows s (initializeRest t org d s)"
proof (cases "googleLoaded s \<and> (googleMapRef s \<or> mounted s)")
  case False
  then show ?thesis using assms
    by (auto simp: initializeRest_def routeInv_def routeView_def grows_def emit_def Let_def log_append)
next
  case True
  define s1 where "s1 = (if \<not> googleMapRef s \<and> mounted s then s\<lparr>googleMapRef := True\<rparr> else s)"
  define s2 where "s2 = (emit (FitBounds org d) s1)
                      \<lparr>directionsRendererRef := True, directionsServiceRef := True\<rparr>"
  have i2: "routeInv s2" "destination s2 = Some d" "origin s2 = origin s"
       "routeRequests (calls s2) = routeRequests (calls s)"
    using assms True by (auto simp: routeInv_def routeView_def s1_def s2_def emit_def log_append)
  show ?thesis
  proof (cases org)
    case None
    then have eq: "initializeRest t org d s = emit (DestinationMarker d) s2"
      using True by (auto simp: initializeRest_def s1_def s2_def Let_def)
    show ?thesis using i2 unfolding eq
      by (auto simp: routeInv_def routeView_def grows_def emit_def log_append)
  next
    case (Some c)
    define s3 where "s3 = (if currentMarkerRef s2 = None then s2\<lparr>currentMarkerRef := Some c\<rparr> else s2)"
    have eq: "initializeRest t org d s = computeRouteFrom t c s3"
      using True Some by (auto simp: initializeRest_def s1_def s2_def s3_def Let_def)
    have i3: "routeInv s3" "destination s3 \<noteq> None" "origin s3 = Some c"
         "routeRequests (calls s3) = routeRequests (calls s)"
      using assms(3) i2 Some by (auto simp: routeInv_def routeView_def s3_def)
    from computeRouteFrom_ok [OF i3(1,2,3), of t] i3(4) show ?thesis
      by (simp add: eq grows_def)
  qed
qed

lemma initEffect_ok:
  assumes "routeInv s"
  shows "routeInv (initEffect t s) \<and> grows s (initEffect t s)"
proof -
  define s0 where "s0 = s\<lparr>initDeps := Some (mapReady s, destination s, originVersion s)\<rparr>"
  have v0: "routeView s0 = routeView s" by (simp add: s0_def routeView_def)
  have i0: "routeInv s0" "grows s s0" using routeInv_frame [OF assms v0] by simp_all
  show ?thesis
  proof (cases "mapReady s \<and> destination s \<noteq> None")
    case False
    then have "initEffect t s = s0"
      by (auto simp: initEffect_def s0_def Let_def split: option.splits)
    then show ?thesis using i0 by simp
  next
    case True
    then obtain d where d: "destination s = Some d" by auto
    have d0: "destination s0 = Some d" "calls s0 = calls s" using d by (simp_all add: s0_def)
    have eq: "initEffect t s = initialize t d s0"
      using True d by (simp add: initEffect_def s0_def)
    show ?thesis
    proof (cases "origin s = None \<and> hasGeolocation s")
      case True
      then have "initialize t d s0
           = (emit (GetCurrentPosition 8000) (s0\<lparr>loading := True\<rparr>))\<lparr>oneShots := oneShots s0 @ [d]\<rparr>"
        by (simp add: initialize_def s0_def)
      then show ?thesis using i0(1) d0
        by (auto simp: eq routeInv_def routeView_def grows_def emit_def log_append)
    next
      case False
      then have "initialize t d s0 = initializeRest t (origin s0) d s0"
        by (auto simp: initialize_def s0_def split: option.splits)
      with initializeRest_ok [OF i0(1) d0(1), of "origin s0" t] d0(2) show ?thesis
        by (simp add: eq grows_def)
    qed
  qed
qed

lemma oneShotResolved_ok:
  assumes "routeInv s"
  shows "routeInv (oneShotResolved r t s) \<and> grows s (oneShotResolved r t s)"
proof (cases "oneShots s")
  case Nil
  then show ?thesis using assms by (simp add: oneShotResolved_def grows_def)
next
  case (Cons d ds)
  define s2 where "s2 = (case r of
                      Some c \<Rightarrow> (setOrigin c (s\<lparr>oneShots := ds\<rparr>))\<lparr>lastPositionRef := Some c, loading := False\<rparr>
                    | None \<Rightarrow> s\<lparr>oneShots := ds, loading := False\<rparr>)"
  have i2: "routeInv s2" "destination s2 = Some d" "calls s2 = calls s"
    using assms Cons by (auto simp: routeInv_def routeView_def s2_def setOrigin_def split: option.splits)
  have eq: "oneShotResolved r t s = initializeRest t None d s2"
    using Cons by (simp add: oneShotResolved_def s2_def Let_def split: option.splits)
  from initializeRest_ok [OF i2(1,2), of None t] i2(3) show ?thesis
    by (simp add: eq grows_def)
qed

lemma placeSample_ok:
  assumes "routeInv s"
  shows "routeInv (placeSample p s)" "origin (placeSample p s) = Some p"
        "calls (placeSample p s) = calls s" "googleMapRef (placeSample p s) = googleMapRef s"
        "destination (placeSample p s) = destination s"
  using assms by (auto simp: routeInv_def routeView_def placeSample_def setOrigin_def Let_def)

lemma watchSuccess_ok:
  assumes "routeInv s"
  shows "routeInv (watchSuccess p now s) \<and> grows s (watchSuccess p now s)"
proof -
  define s2 where "s2 = placeSample p s"
  define s3 where "s3 = s2\<lparr>lastRouteTimestampRef := now\<rparr>"
  note i2 = placeSample_ok [OF assms, of p, folded s2_def]
  have i3: "routeInv s3" "origin s3 = Some p" "calls s3 = calls s"
       "googleMapRef s3 = googleMapRef s" "destination s3 = destination s"
    using i2 by (simp_all add: s3_def routeInv_def routeView_def)
  show ?thesis
  proof (cases "shouldRecompute (engine s2) (lastPositionRef s) p now (lastRouteTimestampRef s2)")
    case False
    then have "watchSuccess p now s = s2" by (simp add: watchSuccess_def s2_def)
    then show ?thesis using i2 by (simp add: grows_def)
  next
    case True
    show ?thesis
    proof (cases "directionsServiceRef s3 \<and> googleMapRef s3")
      case False
      then have "watchSuccess p now s = s3"
        using True by (auto simp: watchSuccess_def s2_def s3_def Let_def)
      then show ?thesis using i3 by (simp add: grows_def)
    next
      case go: True
      then have eq: "watchSuccess p now s = computeRouteFrom now p s3"
        using True by (auto simp: watchSuccess_def s2_def s3_def Let_def)
      have "destination s3 \<noteq> None"
        using go assms i3(4,5) by (simp add: routeInv_def routeView_def)
      from computeRouteFrom_ok [OF i3(1) this i3(2), of now] i3(3) show ?thesis
        by (simp add: eq grows_def)
    qed
  qed
qed

lemma step_ok:
  assumes "routeInv s"
  shows "routeInv (step e s) \<and> grows s (step e s)"
proof (cases e)
  case ScriptEffect
  then show ?thesis using routeInv_frame [OF assms rview_scriptEffect] routeInv_frame [OF assms refl]
    by simp
next
  case GoogleLoads
  then show ?thesis using assms by (simp add: routeInv_def routeView_def grows_def)
next
  case PollTick
  then show ?thesis using routeInv_frame [OF assms rview_pollTick] routeInv_frame [OF assms refl]
    by simp
next
  case ScriptOnload
  have "routeView (s\<lparr>mapReady := True\<rparr>) = routeView s" by (simp add: routeView_def)
  from routeInv_frame [OF assms this] routeInv_frame [OF assms refl] ScriptOnload show ?thesis by simp
next
  case ScriptOnerror
  have "routeView (s\<lparr>error := Some ''Failed to load Google Maps script.''\<rparr>) = routeView s"
    by (simp add: routeView_def)
  from routeInv_frame [OF assms this] routeInv_frame [OF assms refl] ScriptOnerror show ?thesis by simp
next
  case (InitEffect t)
  then show ?thesis using initEffect_ok [OF assms, of t] routeInv_frame [OF assms refl] by simp
next
  case (OneShotResolved r t)
  then show ?thesis using oneShotResolved_ok [OF assms] by simp
next
  case Toggle
  have "routeView (s\<lparr>liveTracking := \<not> liveTracking s\<rparr>) = routeView s"
    by (simp add: routeView_def)
  from routeInv_frame [OF assms this] routeInv_frame [OF assms refl] Toggle show ?thesis by simp
next
  case LiveEffect
  then show ?thesis using routeInv_frame [OF assms rview_liveEffect] routeInv_frame [OF assms refl]
    by simp
next
  case (Sample p now)
  then show ?thesis using watchSuccess_ok [OF assms, of p now] routeInv_frame [OF assms refl]
    by simp
next
  case WatchError
  then show ?thesis using routeInv_frame [OF assms rview_watchFail] routeInv_frame [OF assms refl]
    by simp
next
  case (RouteResolved i result status)
  then show ?thesis using routeInv_frame [OF assms rview_routeResolved] by simp
next
  case Unmount
  then show ?thesis using routeInv_frame [OF assms rview_unmount] routeInv_frame [OF assms refl]
    by simp
qed

lemma routeInv_initial: "routeInv (initialPage ngo dest g geo key inDom fp)"
  by (simp add: routeInv_def routeView_def initialPage_def)

lemma routeInv_run: "routeInv s \<Longrightarrow> routeInv (run es s)"
  by (induction es arbitrary: s) (simp_all add: step_ok)

lemma drop_requests:
  "routeRequests (calls s') = routeRequests (calls s) @ new
   \<Longrightarrow> drop (length (routeRequests (calls s))) (routeRequests (calls s')) = new"
  by simp

text \<open>
  Claim C3. In every reachable state \<open>s\<close> of the tracking session, and for every event \<open>e\<close>
  that follows it: no route computation has dereferenced a null destination, and every
  directions request issued by \<open>e\<close> carries the origin and the destination that the page
  holds, both known.
\<close>

theorem C3_route_only_with_origin_and_destination:
  assumes s_def: "s = run es (initialPage ngo dest g geo key inDom fp)"
  shows "ThrowNullDestination \<notin> set (calls s)
       \<and> ThrowNullDestination \<notin> set (calls (step e s))
       \<and> (\<forall>r \<in> set (drop (length (routeRequests (calls s))) (routeRequests (calls (step e s)))).
             origin (step e s) = Some (req_origin r)
           \<and> destination (step e s) = Some (req_destination r))"
proof -
  have i: "routeInv s" unfolding s_def by (rule routeInv_run [OF routeInv_initial])
  then have a: "ThrowNullDestination \<notin> set (calls s)"
    by (simp add: routeInv_def routeView_def)
  from step_ok [OF i, of e] have i': "routeInv (step e s)" and g: "grows s (step e s)"
    by simp_all
  from i' have b: "ThrowNullDestination \<notin> set (calls (step e s))"
    by (simp add: routeInv_def routeView_def)
  from g obtain new where
    n: "routeRequests (calls (step e s)) = routeRequests (calls s) @ new"
    and k: "\<forall>r \<in> set new. origin (step e s) = Some (req_origin r)
                          \<and> destination (step e s) = Some (req_destination r)"
    unfolding grows_def by blast
  from k show ?thesis using a b unfolding drop_requests [OF n] by blast
qed

text \<open>
  The first live sample after a failed one-shot read: the request it issues goes from the
  sample to the destination.
\<close>

theorem C3_witness:
  "ThrowNullDestination \<notin> set (calls (step (Sample \<lparr>lat = 12.9716, lng = 77.5946\<rparr> 1000)
       (run [ScriptEffect, InitEffect 0, LiveEffect, OneShotResolved None 10, Toggle, LiveEffect]
          (initialPage None (Some \<lparr>lat = 12.9352, lng = 77.6245\<rparr>) True True True False exactMath))))
   \<and> drop (length (routeRequests (calls
          (run [ScriptEffect, InitEffect 0, LiveEffect, OneShotResolved None 10, Toggle, LiveEffect]
             (initialPage None (Some \<lparr>lat = 12.9352, lng = 77.6245\<rparr>) True True True False exactMath)))))
        (routeRequests (calls (step (Sample \<lparr>lat = 12.9716, lng = 77.5946\<rparr> 1000)
          (run [ScriptEffect, InitEffect 0, LiveEffect, OneShotResolved None 10, Toggle, LiveEffect]
             (initialPage None (Some \<lparr>lat = 12.9352, lng = 77.6245\<rparr>) True True True False exactMath)))))
     = [drivingRequest 1000 \<lparr>lat = 12.9716, lng = 77.5946\<rparr> \<lparr>lat = 12.9352, lng = 77.6245\<rparr>]
   \<and> origin (step (Sample \<lparr>lat = 12.9716, lng = 77.5946\<rparr> 1000)
          (run [ScriptEffect, InitEffect 0, LiveEffect, OneShotResolved None 10, Toggle, LiveEffect]
             (initialPage None (Some \<lparr>lat = 12.9352, lng = 77.6245\<rparr>) True True True False exactMath)))
     = Some \<lparr>lat = 12.9716, lng = 77.5946\<rparr>
   \<and> destination (step (Sample \<lparr>lat = 12.9716, lng = 77.5946\<rparr> 1000)
          (run [ScriptEffect, InitEffect 0, LiveEffect, OneShotResolved None 10, Toggle, LiveEffect]
             (initialPage None (Some \<lparr>lat = 12.9352, lng = 77.6245\<rparr>) True True True False exactMath)))
     = Some \<lparr>lat = 12.9352, lng = 77.6245\<rparr>"
  using C3_route_only_with_origin_and_destination [OF refl,
          where e = "Sample \<lparr>lat = 12.9716, lng = 77.5946\<rparr> 1000"
            and es = "[ScriptEffect, InitEffect 0, LiveEffect, OneShotResolved None 10, Toggle, LiveEffect]"
            and ngo = None and dest = "Some \<lparr>lat = 12.9352, lng = 77.6245\<rparr>"
            and g = True and geo = True and key = True and inDom = False
            and fp = exactMath]
  by (simp add: page_ops initialPage_def)

text \<open>
  Claim C9. Whenever \<open>computeRouteFrom\<close> reaches the directions provider, it issues exactly one
  request, for a driving route, with no route alternatives, from the given origin to the
  destination.
\<close>

theorem C9_single_driving_request_no_alternatives:
  assumes "googleLoaded s" and "destination s = Some d"
  shows "calls (computeRouteFrom t usedOrigin s)
         = calls s @ [RouteRequest \<lparr> req_origin = usedOrigin, req_destination = d,
                                     travelMode = DRIVING, departureTime = t,
                                     trafficModel = ''bestguess'',
                                     provideRouteAlternatives = False \<rparr>]
       \<and> pendingRoutes (computeRouteFrom t usedOrigin s)
         = pendingRoutes s @ [\<lparr> req_origin = usedOrigin, req_destination = d,
                                travelMode = DRIVING, departureTime = t,
                                trafficModel = ''bestguess'',
                                provideRouteAlternatives = False \<rparr>]"
  using assms by (simp add: computeRouteFrom_def drivingRequest_def emit_def Let_def)

text \<open>The pair of the scenario: origin (12.9716, 77.5946), destination (12.9352, 77.6245).\<close>

theorem C9_witness:
  "googleLoaded (initialPage None (Some \<lparr>lat = 12.9352, lng = 77.6245\<rparr>) True True True False exactMath)
   \<and> destination (initialPage None (Some \<lparr>lat = 12.9352, lng = 77.6245\<rparr>) True True True False exactMath)
       = Some \<lparr>lat = 12.9352, lng = 77.6245\<rparr>
   \<and> routeRequests (calls (computeRouteFrom 5 \<lparr>lat = 12.9716, lng = 77.5946\<rparr>
        (initialPage None (Some \<lparr>lat = 12.9352, lng = 77.6245\<rparr>) True True True False exactMath)))
       = [\<lparr> req_origin = \<lparr>lat = 12.9716, lng = 77.5946\<rparr>,
            req_destination = \<lparr>lat = 12.9352, lng = 77.6245\<rparr>,
            travelMode = DRIVING, departureTime = 5, trafficModel = ''bestguess'',
            provideRouteAlternatives = False \<rparr>]"
  using C9_single_driving_request_no_alternatives
          [of "initialPage None (Some \<lparr>lat = 12.9352, lng = 77.6245\<rparr>) True True True False exactMath"
              "\<lparr>lat = 12.9352, lng = 77.6245\<rparr>" 5 "\<lparr>lat = 12.9716, lng = 77.5946\<rparr>"]
  by (simp add: initialPage_def)


section \<open>The two scenarios, evaluated\<close>

lemmas page_eval =
  emit_def setOrigin_def scriptEffect_def pollTick_def computeRouteFrom_def
  routeCallback_def routeResolved_def initializeRest_def initialize_def initEffect_def
  oneShotResolved_def clearWatch_def liveCleanupRun_def liveEffectBody_def liveEffect_def
  placeSample_def watchSuccess_def watchFail_def unmount_def firstLeg_def
  Let_def

lemma shouldRecompute_first: "shouldRecompute fp None newPos now lastRoute"
  by (simp add: shouldRecompute_def)

lemma shouldRecompute_still:
  "exactAtZero fp \<Longrightarrow> \<bar>lat p\<bar> \<le> 90
   \<Longrightarrow> shouldRecompute fp (Some p) p now lastRoute \<longleftrightarrow> 10000 < now - lastRoute"
  by (simp add: shouldRecompute_def haversineMeters_same)

lemma moved_late:
  "shouldRecompute fp (Some ngoPosition) movedPosition (startTime + 12000) (startTime + 1000)"
  by (simp add: shouldRecompute_def)

lemma ngo_still:
  "exactAtZero fp
   \<Longrightarrow> shouldRecompute fp (Some ngoPosition) ngoPosition now lastRoute \<longleftrightarrow> 10000 < now - lastRoute"
  by (rule shouldRecompute_still) (simp_all add: ngoPosition_def)

lemma ngo_still_exact:
  "shouldRecompute exactMath (Some ngoPosition) ngoPosition now lastRoute
     \<longleftrightarrow> 10000 < now - lastRoute"
  by (rule ngo_still [OF exactAtZero_exactMath])

lemma ngo_same_exact: "haversineMeters exactMath ngoPosition ngoPosition = Fin 0"
  by (rule haversineMeters_same [OF exactAtZero_exactMath]) (simp add: ngoPosition_def)

lemmas sample_eval = shouldRecompute_first ngo_still_exact moved_late

lemma startTime_pos: "9000 < startTime"
  by (simp add: startTime_def)

lemma scriptPending_facts:
  "activeWatches (scriptPending fp) = [0]"
  "lastPositionRef (scriptPending fp) = Some ngoPosition"
  "lastRouteTimestampRef (scriptPending fp) = startTime + 1000"
  "directionsServiceRef (scriptPending fp) = False"
  "googleMapRef (scriptPending fp) = False"
  "engine (scriptPending fp) = fp"
  "calls (scriptPending fp)
     = [WatchPosition 0 \<lparr>enableHighAccuracy = True, maximumAge = 2000, timeout = 10000\<rparr>]"
  by (simp_all add: scriptPending_def page_eval shouldRecompute_first initialPage_def)

lemma equatorSession_facts:
  "activeWatches (equatorSession fp) = [0]"
  "lastPositionRef (equatorSession fp) = Some equatorWest"
  "lastRouteTimestampRef (equatorSession fp) = startTime + 1000"
  "directionsServiceRef (equatorSession fp) = True"
  "googleMapRef (equatorSession fp) = True"
  "engine (equatorSession fp) = fp"
  "destination (equatorSession fp) = Some caseSite"
  by (simp_all add: equatorSession_def page_eval shouldRecompute_first initialPage_def)

lemma liveSession_value:
  "liveSession fp =
     \<lparr> origin = Some ngoPosition, destination = Some caseSite, loading = True, mapReady = True,
       routeInfo = None, error = None, liveTracking = True,
       watchIdRef = Some 0, lastPositionRef = Some ngoPosition,
       lastRouteTimestampRef = startTime + 1000,
       googleMapRef = True, directionsRendererRef = True, directionsServiceRef = True,
       currentMarkerRef = Some ngoPosition,
       mounted = True, originVersion = 2, scriptEffectRan = True, pollTimer = False,
       scriptListener = False, initDeps = Some (True, Some caseSite, 2), liveDeps = Some True,
       liveCleanup = True,
       googleLoaded = True, hasGeolocation = True, hasKey = True, scriptInDom = False,
       engine = fp,
       renderedRoute = None, activeWatches = [0], nextWatchId = 1,
       pendingRoutes = [drivingRequest (startTime + 600) ngoPosition caseSite,
                        drivingRequest (startTime + 1000) ngoPosition caseSite,
                        drivingRequest (startTime + 1001) ngoPosition caseSite],
       oneShots = [],
       calls = [GetCurrentPosition 8000, FitBounds None caseSite, DestinationMarker caseSite,
                FitBounds (Some ngoPosition) caseSite,
                RouteRequest (drivingRequest (startTime + 600) ngoPosition caseSite),
                WatchPosition 0 \<lparr>enableHighAccuracy = True, maximumAge = 2000, timeout = 10000\<rparr>,
                RouteRequest (drivingRequest (startTime + 1000) ngoPosition caseSite),
                FitBounds (Some ngoPosition) caseSite,
                RouteRequest (drivingRequest (startTime + 1001) ngoPosition caseSite)] \<rparr>"
proof -
  have late: "shouldRecompute fp (Some ngoPosition) ngoPosition (startTime + 1000) 0"
    using startTime_pos by (simp add: shouldRecompute_def)
  show ?thesis
    by (simp add: liveSession_def page_eval late initialPage_def)
qed


section \<open>The live handler\<close>

lemma watchSuccess_cases:
  "watchSuccess newPos now s =
     (if shouldRecompute (engine s) (lastPositionRef s) newPos now (lastRouteTimestampRef s)
      then if directionsServiceRef s \<and> googleMapRef s
           then computeRouteFrom now newPos ((placeSample newPos s)\<lparr>lastRouteTimestampRef := now\<rparr>)
           else (placeSample newPos s)\<lparr>lastRouteTimestampRef := now\<rparr>
      else placeSample newPos s)"
  by (simp add: watchSuccess_def placeSample_def setOrigin_def Let_def)

lemma calls_placeSample: "calls (placeSample newPos s) = calls s"
  by (simp add: placeSample_def setOrigin_def Let_def)

text \<open>
  Claim C1, as the handler has it. In every reachable state with an active watch and a
  stored previous position, on every engine, the handler \<open>success\<close> issues a route request
  for the new sample exactly when the distance that \<open>haversineMeters\<close> returns from the
  previous position to the sample is greater than 20 (which a \<open>NaN\<close> is not) or more than
  10000 ms have passed since \<open>lastRouteTimestampRef\<close>, and the directions service and the
  map have been created; otherwise the handler makes no call at all.
\<close>

theorem C1_recompute_iff_threshold_and_map_ready:
  assumes s_def: "s = run es (initialPage ngo dest g geo key inDom fp)"
    and live: "activeWatches s \<noteq> []"
    and prev: "lastPositionRef s = Some p"
  shows "((gtNum (haversineMeters (engine s) p newPos) (Fin 20)
             \<or> 10000 < now - lastRouteTimestampRef s)
            \<and> directionsServiceRef s \<and> googleMapRef s
          \<longrightarrow> (\<exists>d. destination s = Some d
                \<and> calls (step (Sample newPos now) s)
                    = calls s @ [RouteRequest (drivingRequest now newPos d)]))
       \<and> (\<not> ((gtNum (haversineMeters (engine s) p newPos) (Fin 20)
                \<or> 10000 < now - lastRouteTimestampRef s)
               \<and> directionsServiceRef s \<and> googleMapRef s)
          \<longrightarrow> calls (step (Sample newPos now) s) = calls s)"
proof -
  have "routeInv s" unfolding s_def by (rule routeInv_run [OF routeInv_initial])
  then have wired: "googleMapRef s \<longrightarrow> googleLoaded s \<and> destination s \<noteq> None"
    by (simp add: routeInv_def routeView_def)
  have trig: "shouldRecompute (engine s) (lastPositionRef s) newPos now (lastRouteTimestampRef s)
              \<longleftrightarrow> gtNum (haversineMeters (engine s) p newPos) (Fin 20)
                   \<or> 10000 < now - lastRouteTimestampRef s"
    by (simp add: shouldRecompute_def prev)
  have st: "step (Sample newPos now) s = watchSuccess newPos now s"
    using live by simp
  show ?thesis
  proof (cases "(gtNum (haversineMeters (engine s) p newPos) (Fin 20)
                   \<or> 10000 < now - lastRouteTimestampRef s)
                  \<and> directionsServiceRef s \<and> googleMapRef s")
    case True
    with wired obtain d where d: "destination s = Some d" and gl: "googleLoaded s" by auto
    have "watchSuccess newPos now s
          = computeRouteFrom now newPos ((placeSample newPos s)\<lparr>lastRouteTimestampRef := now\<rparr>)"
      using True trig by (simp add: watchSuccess_cases)
    then have "calls (watchSuccess newPos now s) = calls s @ [RouteRequest (drivingRequest now newPos d)]"
      using d gl
      by (simp add: computeRouteFrom_def placeSample_def setOrigin_def emit_def Let_def)
    then show ?thesis using True d st by simp
  next
    case False
    then have "watchSuccess newPos now s = (placeSample newPos s)\<lparr>lastRouteTimestampRef := now\<rparr>
             \<or> watchSuccess newPos now s = placeSample newPos s"
      using trig by (auto simp: watchSuccess_cases)
    then have "calls (watchSuccess newPos now s) = calls s"
      by (auto simp: calls_placeSample)
    then show ?thesis using False st by simp
  qed
qed

text \<open>
  The claim as stated fails where the map is not there yet: in \<open>scriptPending\<close> a sample
  arrives 11 s after the last staged timestamp, and no route computation follows.
\<close>

theorem C1_counterexample:
  "activeWatches (scriptPending exactMath) \<noteq> []
   \<and> lastPositionRef (scriptPending exactMath) = Some ngoPosition
   \<and> 10000 < (startTime + 12000) - lastRouteTimestampRef (scriptPending exactMath)
   \<and> routeRequests (calls (step (Sample ngoPosition (startTime + 12000)) (scriptPending exactMath)))
       = []
   \<and> pendingRoutes (step (Sample ngoPosition (startTime + 12000)) (scriptPending exactMath)) = []"
  by (simp add: scriptPending_def page_eval sample_eval initialPage_def)

text \<open>
  One sample that the handler holds back (same place, 2 s later, no map), one that it lets
  through by the time criterion (11 s later, map and directions service there), and one
  that it lets through by the distance criterion (about 111 m away, 2 s later).
\<close>

theorem C1_witness:
  "activeWatches (scriptPending exactMath) \<noteq> []
   \<and> lastPositionRef (scriptPending exactMath) = Some ngoPosition
   \<and> \<not> ((gtNum (haversineMeters (engine (scriptPending exactMath)) ngoPosition ngoPosition) (Fin 20)
          \<or> 10000 < (startTime + 3000) - lastRouteTimestampRef (scriptPending exactMath))
         \<and> directionsServiceRef (scriptPending exactMath) \<and> googleMapRef (scriptPending exactMath))
   \<and> calls (step (Sample ngoPosition (startTime + 3000)) (scriptPending exactMath))
       = calls (scriptPending exactMath)
   \<and> activeWatches (liveSession exactMath) \<noteq> []
   \<and> lastPositionRef (liveSession exactMath) = Some ngoPosition
   \<and> 10000 < (startTime + 12000) - lastRouteTimestampRef (liveSession exactMath)
   \<and> directionsServiceRef (liveSession exactMath) \<and> googleMapRef (liveSession exactMath)
   \<and> calls (step (Sample movedPosition (startTime + 12000)) (liveSession exactMath))
       = calls (liveSession exactMath)
         @ [RouteRequest (drivingRequest (startTime + 12000) movedPosition caseSite)]
   \<and> activeWatches (equatorSession exactMath) \<noteq> []
   \<and> lastPositionRef (equatorSession exactMath) = Some equatorWest
   \<and> gtNum (haversineMeters (engine (equatorSession exactMath)) equatorWest equatorEast) (Fin 20)
   \<and> \<not> 10000 < (startTime + 3000) - lastRouteTimestampRef (equatorSession exactMath)
   \<and> directionsServiceRef (equatorSession exactMath) \<and> googleMapRef (equatorSession exactMath)
   \<and> calls (step (Sample equatorEast (startTime + 3000)) (equatorSession exactMath))
       = calls (equatorSession exactMath)
         @ [RouteRequest (drivingRequest (startTime + 3000) equatorEast caseSite)]"
  using C1_recompute_iff_threshold_and_map_ready
          [OF scriptPending_def [of exactMath], where p = ngoPosition and newPos = ngoPosition
             and now = "startTime + 3000"]
        C1_recompute_iff_threshold_and_map_ready
          [OF liveSession_def [of exactMath], where p = ngoPosition and newPos = movedPosition
             and now = "startTime + 12000"]
        C1_recompute_iff_threshold_and_map_ready
          [OF equatorSession_def [of exactMath], where p = equatorWest and newPos = equatorEast
             and now = "startTime + 3000"]
  by (simp add: scriptPending_facts ngo_same_exact liveSession_value equatorSession_facts
                equator_over_20)

text \<open>
  On every engine that is exact at zero, the handler holds the second sample of
  \<open>liveSession\<close> back, and the effect issues a route request after it all the same.
\<close>

lemma held_back_on_every_engine:
  assumes "exactAtZero fp"
  shows "calls (step (Sample ngoPosition (startTime + 3000)) (liveSession fp))
           = calls (liveSession fp)
       \<and> routeRequests (calls (run [Sample ngoPosition (startTime + 3000),
                                     InitEffect (startTime + 3001)] (liveSession fp)))
           = routeRequests (calls (liveSession fp))
             @ [drivingRequest (startTime + 3001) ngoPosition caseSite]"
  by (simp add: liveSession_value page_eval ngo_still [OF assms])

text \<open>
  Claim C5, evaluated on \<open>liveSession\<close>. The triggering sample at \<open>startTime + 1000\<close> has
  stored its timestamp while its request is still in flight, and the handler holds back
  the next sample (same place, 2 s later). But that sample calls \<open>setOrigin\<close>, the effect
  with dependencies \<open>[mapReady, destination, origin]\<close> runs again, and \<open>initialize\<close> issues a
  route request although neither threshold is met.
\<close>

theorem C5_handler_holds_back_but_effect_requests:
  "lastRouteTimestampRef (liveSession exactMath) = startTime + 1000
   \<and> drivingRequest (startTime + 1000) ngoPosition caseSite
        \<in> set (pendingRoutes (liveSession exactMath))
   \<and> lastPositionRef (liveSession exactMath) = Some ngoPosition
   \<and> haversineMeters (engine (liveSession exactMath)) ngoPosition ngoPosition = Fin 0
   \<and> \<not> 10000 < (startTime + 3000) - lastRouteTimestampRef (liveSession exactMath)
   \<and> calls (step (Sample ngoPosition (startTime + 3000)) (liveSession exactMath))
       = calls (liveSession exactMath)
   \<and> routeRequests (calls (run [Sample ngoPosition (startTime + 3000),
                                 InitEffect (startTime + 3001)] (liveSession exactMath)))
       = routeRequests (calls (liveSession exactMath))
         @ [drivingRequest (startTime + 3001) ngoPosition caseSite]"
  by (simp add: liveSession_value page_eval sample_eval ngo_same_exact)


section \<open>Route results out of order\<close>

text \<open>
  Claim C2 fails as stated. From \<open>liveSession\<close> a second sample stages the timestamp
  \<open>startTime + 12000\<close> and issues the request at index 3; the request staged at
  \<open>startTime + 1000\<close> (index 1) is still in flight. The newer request resolves first, the
  older one after it: the older result replaces the rendered route and \<open>routeInfo\<close>.
\<close>

theorem C2_counterexample:
  "pendingRoutes (run [Sample movedPosition (startTime + 12000), InitEffect (startTime + 12001)]
                    (liveSession exactMath))
     = [drivingRequest (startTime + 600) ngoPosition caseSite,
        drivingRequest (startTime + 1000) ngoPosition caseSite,
        drivingRequest (startTime + 1001) ngoPosition caseSite,
        drivingRequest (startTime + 12000) movedPosition caseSite,
        drivingRequest (startTime + 12001) movedPosition caseSite]
   \<and> lastRouteTimestampRef
        (run [Sample movedPosition (startTime + 12000), InitEffect (startTime + 12001)] (liveSession exactMath))
     = startTime + 12000
   \<and> renderedRoute
        (run [Sample movedPosition (startTime + 12000), InitEffect (startTime + 12001),
              RouteResolved 3 newerResult ''OK''] (liveSession exactMath))
     = Some newerResult
   \<and> renderedRoute
        (run [Sample movedPosition (startTime + 12000), InitEffect (startTime + 12001),
              RouteResolved 3 newerResult ''OK'', RouteResolved 1 olderResult ''OK''] (liveSession exactMath))
     = Some olderResult
   \<and> routeInfo
        (run [Sample movedPosition (startTime + 12000), InitEffect (startTime + 12001),
              RouteResolved 3 newerResult ''OK'', RouteResolved 1 olderResult ''OK''] (liveSession exactMath))
     = Some \<lparr>distanceText = Some ''4.5 km'', durationText = Some ''12 mins''\<rparr>
   \<and> pendingRoutes
        (run [Sample movedPosition (startTime + 12000), InitEffect (startTime + 12001),
              RouteResolved 3 newerResult ''OK'', RouteResolved 1 olderResult ''OK''] (liveSession exactMath))
     = [drivingRequest (startTime + 600) ngoPosition caseSite,
        drivingRequest (startTime + 1001) ngoPosition caseSite,
        drivingRequest (startTime + 12001) movedPosition caseSite]
   \<and> olderResult \<noteq> newerResult"
  by (simp add: liveSession_value page_eval sample_eval olderResult_def newerResult_def)

text \<open>
  Claim C2, as the callback has it. Every resolution with status \<open>"OK"\<close> of a request in
  flight replaces the rendered route and \<open>routeInfo\<close> with its own result; the callback
  neither reads nor writes \<open>lastRouteTimestampRef\<close>, so the request that resolves last
  decides what is displayed.
\<close>

theorem C2_last_resolution_wins:
  assumes "i < length (pendingRoutes s)"
  shows "renderedRoute (routeResolved i result ''OK'' s) = Some result
       \<and> routeInfo (routeResolved i result ''OK'' s)
           = (case firstLeg result of
                None \<Rightarrow> None
              | Some l \<Rightarrow> Some \<lparr>distanceText = distance l, durationText = duration l\<rparr>)
       \<and> lastRouteTimestampRef (routeResolved i result ''OK'' s) = lastRouteTimestampRef s
       \<and> routeResolved i result status (s\<lparr>lastRouteTimestampRef := t\<rparr>)
           = (routeResolved i result status s)\<lparr>lastRouteTimestampRef := t\<rparr>"
  using assms by (simp add: routeResolved_def routeCallback_def Let_def)

theorem C2_witness:
  "1 < length (pendingRoutes (liveSession exactMath))
   \<and> renderedRoute (routeResolved 1 olderResult ''OK'' (liveSession exactMath)) = Some olderResult
   \<and> routeInfo (routeResolved 1 olderResult ''OK'' (liveSession exactMath))
       = Some \<lparr>distanceText = Some ''4.5 km'', durationText = Some ''12 mins''\<rparr>"
  using C2_last_resolution_wins [of 1 "liveSession exactMath" olderResult "''OK''" 0]
  by (simp add: liveSession_value olderResult_def firstLeg_def)


section \<open>One-shot origin resolution\<close>

text \<open>
  Claim C7. When the effect runs on a mounted page with the map library ready, a
  destination and no origin, it asks for one position with a timeout of 8000 ms. When the
  position arrives, the origin is set, and the next run of the effect, due because \<open>origin\<close>
  changed, computes the route from it; no second position is asked for. When the read
  fails or times out, the origin stays unset, the destination marker is placed, no route is
  requested, and the effect is not due again.
\<close>

theorem C7_one_shot_origin:
  assumes "mounted s" and "mapReady s" and "googleLoaded s" and "hasGeolocation s"
    and "origin s = None" and "destination s = Some d" and "oneShots s = []"
    and "initDeps s \<noteq> Some (mapReady s, destination s, originVersion s)"
  shows "calls (step (InitEffect t) s) = calls s @ [GetCurrentPosition 8000]
       \<and> origin (step (InitEffect t) s) = None
       \<and> origin (run [InitEffect t, OneShotResolved (Some c) t'] s) = Some c
       \<and> calls (run [InitEffect t, OneShotResolved (Some c) t', InitEffect t''] s)
           = calls s @ [GetCurrentPosition 8000, FitBounds None d, DestinationMarker d,
                        FitBounds (Some c) d, RouteRequest (drivingRequest t'' c d)]
       \<and> origin (run [InitEffect t, OneShotResolved None t'] s) = None
       \<and> calls (run [InitEffect t, OneShotResolved None t', InitEffect t''] s)
           = calls s @ [GetCurrentPosition 8000, FitBounds None d, DestinationMarker d]
       \<and> pendingRoutes (run [InitEffect t, OneShotResolved None t', InitEffect t''] s)
           = pendingRoutes s"
  using assms
  by (simp add: initEffect_def initialize_def oneShotResolved_def initializeRest_def
                computeRouteFrom_def setOrigin_def emit_def Let_def)

theorem C7_witness:
  "mounted (run [ScriptEffect] (initialPage None (Some caseSite) True True True False exactMath))
   \<and> mapReady (run [ScriptEffect] (initialPage None (Some caseSite) True True True False exactMath))
   \<and> origin (run [ScriptEffect] (initialPage None (Some caseSite) True True True False exactMath)) = None
   \<and> calls (run [ScriptEffect, InitEffect startTime,
                  OneShotResolved (Some ngoPosition) (startTime + 500), InitEffect (startTime + 600)]
               (initialPage None (Some caseSite) True True True False exactMath))
       = [GetCurrentPosition 8000, FitBounds None caseSite, DestinationMarker caseSite,
          FitBounds (Some ngoPosition) caseSite,
          RouteRequest (drivingRequest (startTime + 600) ngoPosition caseSite)]
   \<and> calls (run [ScriptEffect, InitEffect startTime,
                  OneShotResolved None (startTime + 8000), InitEffect (startTime + 8001)]
               (initialPage None (Some caseSite) True True True False exactMath))
       = [GetCurrentPosition 8000, FitBounds None caseSite, DestinationMarker caseSite]"
  using C7_one_shot_origin
          [of "run [ScriptEffect] (initialPage None (Some caseSite) True True True False exactMath)"
              caseSite startTime ngoPosition "startTime + 500" "startTime + 600"]
        C7_one_shot_origin
          [of "run [ScriptEffect] (initialPage None (Some caseSite) True True True False exactMath)"
              caseSite startTime ngoPosition "startTime + 8000" "startTime + 8001"]
  by (simp add: scriptEffect_def initialPage_def Let_def)


section \<open>Submitting a report\<close>

text \<open>
  Claim C10. When the image, the location, the contact phone or the severity is missing,
  \<open>handleSubmit\<close> leaves the page as it is and makes a single call, the error toast of the
  first missing field; and a request to the backend is made only when all four are there.
\<close>

theorem C10_submit_needs_all_fields:
  "((imageFile s = None \<or> location (formData s) = [] \<or> contactPhone (formData s) = []
       \<or> severity (formData s) = [])
     \<longrightarrow> handleSubmit env s
           = (s, [Toast TError
                   (if imageFile s = None then ''Please upload an image''
                    else if location (formData s) = [] then ''Please provide a location''
                    else if contactPhone (formData s) = []
                      then ''Please provide a contact phone number''
                    else ''Please select severity level'')]))
   \<and> (backendRequests (snd (handleSubmit env s)) \<noteq> []
     \<longrightarrow> imageFile s \<noteq> None \<and> location (formData s) \<noteq> []
         \<and> contactPhone (formData s) \<noteq> [] \<and> severity (formData s) \<noteq> [])"
  by (auto simp: handleSubmit_def split: option.splits)

text \<open>A form without phone number, and a complete form that reaches the backend.\<close>

theorem C10_witness:
  "contactPhone (formData (reportForm [])) = []
   \<and> handleSubmit reportEnv (reportForm [])
       = (reportForm [], [Toast TError ''Please provide a contact phone number''])
   \<and> backendRequests (snd (handleSubmit reportEnv (reportForm ''9876543210''))) \<noteq> []
   \<and> imageFile (reportForm ''9876543210'') \<noteq> None
   \<and> location (formData (reportForm ''9876543210'')) \<noteq> []
   \<and> contactPhone (formData (reportForm ''9876543210'')) \<noteq> []
   \<and> severity (formData (reportForm ''9876543210'')) \<noteq> []"
  using C10_submit_needs_all_fields [of "reportForm []" reportEnv]
        C10_submit_needs_all_fields [of "reportForm ''9876543210''" reportEnv]
  by (simp add: reportForm_def reportEnv_def handleSubmit_def submitReport_def locate_def
                onBackend_def Let_def)

end
